theory Spec2Isabelle
  imports Complex_Main "HOL-Library.Word"
begin

section \<open>The voice processing core of W.I.T. (voice_core.c)\<close>

text \<open>
  A shallow embedding of \<^verbatim>\<open>firmware/core/voice/voice_core.c\<close>: the session state
  machine, the voice activity detector with its noise-floor tracker, the mono mixdown
  into the recording buffer and the public operations on a voice context.

  Conventions of the model.
  \<^item> A \<^verbatim>\<open>voice_context_t*\<close> is a \<open>voice_context option\<close>: \<open>None\<close> is the NULL pointer.
    Every operation returns the context it leaves behind.
  \<^item> \<^verbatim>\<open>uint32_t\<close> is \<open>32 word\<close>, \<^verbatim>\<open>int16_t\<close> is \<open>16 word\<close> read with \<open>sint\<close>,
    \<^verbatim>\<open>uint8_t\<close> is \<open>8 word\<close>. \<^verbatim>\<open>size_t\<close> is \<open>nat\<close>: the sizes of this file never exceed
    the recording capacity plus one frame.
  \<^item> A \<^verbatim>\<open>float\<close> is the real number it denotes; the values that occur are finite. What
    the arithmetic operations, the library functions and the conversions return is
    not fixed by the model: it is given by a record \<open>F\<close> of operations that every
    function computing on floats takes (see \<open>float_ops\<close>), so that no property proved
    for every \<open>F\<close> depends on how single precision rounds.
  \<^item> The FreeRTOS objects (frame queue, task handle, mutex, timer) are not state of the
    model. One iteration of the processing task on one dequeued frame is the function
    \<open>voice_processing_step\<close>; the expiry of the timer is \<open>voice_timeout_callback\<close>.
    The trailing part of an iteration (audio callback, copy into the circular buffer)
    writes no field that the functions below read and is left out.
\<close>

subsection \<open>Constants of voice_core.h\<close>

text \<open>
  The macros \<^verbatim>\<open>VOICE_CHANNELS\<close>, \<^verbatim>\<open>VOICE_FRAME_SIZE\<close>, \<^verbatim>\<open>VOICE_SAMPLE_RATE\<close>,
  \<^verbatim>\<open>VAD_FRAME_THRESHOLD\<close>, \<^verbatim>\<open>VAD_ENERGY_THRESHOLD\<close>, \<^verbatim>\<open>MAX_WAKE_WORDS\<close> and
  \<^verbatim>\<open>WAKE_WORD_SENSITIVITY\<close> are used by voice_core.c and declared in its header, whose C
  declarations are not among the sources. They are parameters of the model: every
  function that uses one takes the record \<open>K\<close> of their values.
\<close>

record voice_consts =
  VOICE_CHANNELS :: nat
  VOICE_FRAME_SIZE :: nat
  VOICE_SAMPLE_RATE :: nat
  VAD_FRAME_THRESHOLD :: nat
  VAD_ENERGY_THRESHOLD :: real
  MAX_WAKE_WORDS :: nat
  WAKE_WORD_SENSITIVITY :: real

text \<open>
  Modelled from the spec: the values of the macros of the missing header that the
  specification calls typical: 4 channels, frames of 480 samples at 16 kHz, a VAD
  threshold of 3 frames, an initial noise floor of -40 dBFS. They are used for concrete
  evaluations only.
\<close>

definition typical_consts :: voice_consts where
  "typical_consts = \<lparr> VOICE_CHANNELS = 4, VOICE_FRAME_SIZE = 480, VOICE_SAMPLE_RATE = 16000,
     VAD_FRAME_THRESHOLD = 3, VAD_ENERGY_THRESHOLD = -40, MAX_WAKE_WORDS = 4,
     WAKE_WORD_SENSITIVITY = 1/2 \<rparr>"

subsection \<open>Floating point\<close>

text \<open>
  The operations on \<^verbatim>\<open>float\<close> that voice_core.c uses: \<^verbatim>\<open>+\<close>, \<^verbatim>\<open>-\<close>, \<^verbatim>\<open>*\<close>, \<^verbatim>\<open>/\<close>,
  \<^verbatim>\<open>sqrtf\<close>, \<^verbatim>\<open>log10f\<close>, \<^verbatim>\<open>cosf\<close>, \<^verbatim>\<open>sinf\<close>, the value \<open>f_lit x\<close> of a constant written
  as \<open>x\<close> in the source, and the conversion \<open>f_of_int\<close> of an integer operand. In IEEE
  single precision each returns a rounded result; the record leaves the results open.
  Exact on finite floats, and written with the operations of the reals, are the
  comparisons, \<^verbatim>\<open>fmaxf\<close> and \<^verbatim>\<open>fminf\<close>, the cast to an integer type (which discards the
  fraction) and the constants that are integers of small magnitude (\<open>0\<close>, \<open>1\<close>, \<open>6\<close>,
  \<open>10\<close>, \<open>20\<close>, \<open>-100\<close>, \<open>180\<close>, \<open>343\<close>, \<open>32767\<close>, \<open>32768\<close>): every binary
  floating-point format holds them without rounding.
\<close>

record float_ops =
  f_add :: "real \<Rightarrow> real \<Rightarrow> real"
  f_sub :: "real \<Rightarrow> real \<Rightarrow> real"
  f_mul :: "real \<Rightarrow> real \<Rightarrow> real"
  f_div :: "real \<Rightarrow> real \<Rightarrow> real"
  f_sqrt :: "real \<Rightarrow> real"
  f_log10 :: "real \<Rightarrow> real"
  f_cos :: "real \<Rightarrow> real"
  f_sin :: "real \<Rightarrow> real"
  f_lit :: "real \<Rightarrow> real"
  f_of_int :: "int \<Rightarrow> real"

text \<open>
  The operations without rounding: arithmetic in the reals. Concrete evaluations below
  are made with them.
\<close>

definition exact_float :: float_ops where
  "exact_float =
     \<lparr> f_add = (\<lambda>a b. a + b), f_sub = (\<lambda>a b. a - b), f_mul = (\<lambda>a b. a * b),
       f_div = (\<lambda>a b. a / b), f_sqrt = sqrt, f_log10 = log 10, f_cos = cos, f_sin = sin,
       f_lit = (\<lambda>x. x), f_of_int = real_of_int \<rparr>"

subsection \<open>States, errors and records of voice_core.h\<close>

text \<open>The states named in the \<^verbatim>\<open>switch\<close> of the processing task.\<close>

datatype voice_state =
    VOICE_STATE_IDLE
  | VOICE_STATE_LISTENING
  | VOICE_STATE_WAKE_DETECTED
  | VOICE_STATE_RECORDING
  | VOICE_STATE_PROCESSING
  | VOICE_STATE_ERROR

text \<open>
  The error codes that voice_core.c returns are \<^verbatim>\<open>VOICE_OK\<close>,
  \<^verbatim>\<open>VOICE_ERR_INVALID_PARAM\<close> and \<^verbatim>\<open>VOICE_ERR_BUFFER_OVERFLOW\<close>.

  Modelled from the spec: \<open>VOICE_ERR_INVALID_STATE\<close> stands for the error kind
  InvalidState of the specification's error taxonomy; the enumeration is declared in the
  missing header, and no function of voice_core.c returns this code.
\<close>

datatype voice_error =
    VOICE_OK
  | VOICE_ERR_INVALID_PARAM
  | VOICE_ERR_BUFFER_OVERFLOW
  | VOICE_ERR_INVALID_STATE

text \<open>
  Modelled from the spec: the fields of \<^verbatim>\<open>voice_stats_t\<close> (declared in the missing header)
  as the specification lists them; the counters are incremented with \<^verbatim>\<open>++\<close> in
  voice_core.c and taken as \<^verbatim>\<open>uint32_t\<close>.
\<close>

record voice_stats =
  frames_processed :: "32 word"
  buffer_overruns :: "32 word"
  vad_activations :: "32 word"
  wake_detections :: "32 word"
  avg_energy_db :: real
  noise_floor_db :: real
  cpu_usage_percent :: real

text \<open>\<^verbatim>\<open>memset(&ctx->stats, 0, sizeof(voice_stats_t))\<close>\<close>

definition zero_stats :: voice_stats where
  "zero_stats = \<lparr> frames_processed = 0, buffer_overruns = 0, vad_activations = 0,
     wake_detections = 0, avg_energy_db = 0, noise_floor_db = 0, cpu_usage_percent = 0 \<rparr>"

text \<open>
  A registered wake word. voice_core.c reads only its \<^verbatim>\<open>callback\<close>, a function pointer:
  \<open>None\<close> is NULL, \<open>Some k\<close> is the function identified by \<open>k\<close>.
\<close>

record wake_word_model =
  ww_name :: string
  ww_threshold :: real
  callback :: "nat option"

record beamform_config =
  adaptive_mode :: bool
  mic_positions :: "real list list"

record voice_config =
  beamform :: beamform_config
  num_wake_words :: nat
  wake_words :: "wake_word_model list"

text \<open>A frame: interleaved samples, \<^verbatim>\<open>samples[i * VOICE_CHANNELS + ch]\<close>.\<close>

record voice_frame =
  samples :: "16 word list"
  timestamp_ms :: "32 word"
  energy_db :: "real list"
  frame_vad_active :: bool

text \<open>
  \<^verbatim>\<open>struct voice_context\<close>. Beside the fields of the C structure the record holds the
  function-local \<^verbatim>\<open>static int simulation_counter\<close> of \<^verbatim>\<open>process_wake_word_detection\<close>
  and, as a trace of an effect, the list \<open>wake_callback_calls\<close> of the wake-word callbacks
  invoked so far, oldest first.
\<close>

record voice_context =
  config :: voice_config
  state :: voice_state
  recording_buffer :: "8 word list"
  recording_size :: nat
  recording_capacity :: nat
  is_recording :: bool
  recording_start_time :: "32 word"
  max_recording_duration :: "32 word"
  beamform_weights :: "real list"
  beamform_delays :: "real list"
  current_steering_angle :: real
  last_wake_time :: "32 word"
  wake_sensitivity :: real
  noise_floor :: real
  vad_frame_count :: "32 word"
  vad_active :: bool
  stats :: voice_stats
  start_time :: "32 word"
  simulation_counter :: int
  wake_callback_calls :: "nat list"

subsection \<open>Initialisation\<close>

text \<open>
  The context that \<^verbatim>\<open>voice_init\<close> returns when every allocation succeeds: all fields
  zero, then the configuration copied in, the state, sensitivity, noise floor and start
  time set, the recording buffer of ten seconds allocated and the beamforming weights
  set to \<open>1 / VOICE_CHANNELS\<close>. The content of a freshly allocated recording buffer is
  arbitrary; it is the parameter \<open>heap\<close>.
\<close>

definition voice_init_ok ::
    "float_ops \<Rightarrow> voice_consts \<Rightarrow> voice_config \<Rightarrow> 32 word \<Rightarrow> 8 word list \<Rightarrow> voice_context" where
  "voice_init_ok F K cfg now heap =
     \<lparr> config = cfg,
       state = VOICE_STATE_IDLE,
       recording_buffer = heap,
       recording_size = 0,
       recording_capacity = VOICE_SAMPLE_RATE K * 10 * 2,
       is_recording = False,
       recording_start_time = 0,
       max_recording_duration = 0,
       beamform_weights =
         map (\<lambda>i. f_div F 1 (f_of_int F (int (VOICE_CHANNELS K)))) [0..<VOICE_CHANNELS K],
       beamform_delays = map (\<lambda>i. 0) [0..<VOICE_CHANNELS K],
       current_steering_angle = 0,
       last_wake_time = 0,
       wake_sensitivity = WAKE_WORD_SENSITIVITY K,
       noise_floor = VAD_ENERGY_THRESHOLD K,
       vad_frame_count = 0,
       vad_active = False,
       stats = zero_stats,
       start_time = now,
       simulation_counter = 0,
       wake_callback_calls = [] \<rparr>"

definition voice_init ::
    "float_ops \<Rightarrow> voice_consts \<Rightarrow> voice_config option \<Rightarrow> 32 word \<Rightarrow> 8 word list option
       \<Rightarrow> voice_context option" where
  "voice_init F K cfgp now heap =
     (case cfgp of
        None \<Rightarrow> None
      | Some cfg \<Rightarrow>
          (case heap of
             None \<Rightarrow> None
           | Some bytes \<Rightarrow> Some (voice_init_ok F K cfg now bytes)))"

subsection \<open>Public operations on the session\<close>

definition voice_get_state :: "voice_context option \<Rightarrow> voice_state" where
  "voice_get_state ctxp = (case ctxp of Some ctx \<Rightarrow> state ctx | None \<Rightarrow> VOICE_STATE_ERROR)"

text \<open>\<open>now\<close> is the value of \<^verbatim>\<open>xTaskGetTickCount() * portTICK_PERIOD_MS\<close> at the call.\<close>

definition voice_start_recording ::
    "32 word \<Rightarrow> voice_context option \<Rightarrow> 32 word \<Rightarrow> voice_error \<times> voice_context option" where
  "voice_start_recording now ctxp max_duration_ms =
     (case ctxp of
        None \<Rightarrow> (VOICE_ERR_INVALID_PARAM, None)
      | Some ctx \<Rightarrow>
          if state ctx \<noteq> VOICE_STATE_WAKE_DETECTED \<and> state ctx \<noteq> VOICE_STATE_IDLE
          then (VOICE_ERR_INVALID_PARAM, Some ctx)
          else (VOICE_OK,
                Some (ctx\<lparr> recording_size := 0,
                           is_recording := True,
                           max_recording_duration := max_duration_ms,
                           recording_start_time := now,
                           state := VOICE_STATE_RECORDING \<rparr>)))"

definition voice_stop_recording :: "voice_context option \<Rightarrow> voice_error \<times> voice_context option" where
  "voice_stop_recording ctxp =
     (case ctxp of
        None \<Rightarrow> (VOICE_ERR_INVALID_PARAM, None)
      | Some ctx \<Rightarrow>
          (VOICE_OK, Some (ctx\<lparr> is_recording := False, state := VOICE_STATE_PROCESSING \<rparr>)))"

text \<open>\<^verbatim>\<open>memcpy(dst, src, n)\<close> on byte arrays, for \<open>n\<close> within both.\<close>

definition memcpy :: "'a list \<Rightarrow> 'a list \<Rightarrow> nat \<Rightarrow> 'a list" where
  "memcpy dst src n = take n src @ drop n dst"

text \<open>\<^verbatim>\<open>memcpy(dst + off, src, length src)\<close>, for \<open>off + length src\<close> within \<open>dst\<close>.\<close>

definition memcpy_at :: "'a list \<Rightarrow> nat \<Rightarrow> 'a list \<Rightarrow> 'a list" where
  "memcpy_at dst off src = take off dst @ src @ drop (off + length src) dst"

text \<open>
  \<open>buffer\<close> is the caller's array (\<open>None\<close> for NULL) and \<open>bytes_written\<close> the variable
  the out-pointer refers to (\<open>None\<close> for NULL); both are returned as the call leaves them.
\<close>

definition voice_get_recording ::
    "voice_context option \<Rightarrow> 8 word list option \<Rightarrow> nat \<Rightarrow> nat option
       \<Rightarrow> voice_error \<times> voice_context option \<times> 8 word list option \<times> nat option" where
  "voice_get_recording ctxp buffer buffer_size bytes_written =
     (case ctxp of
        None \<Rightarrow> (VOICE_ERR_INVALID_PARAM, ctxp, buffer, bytes_written)
      | Some ctx \<Rightarrow>
          (case buffer of
             None \<Rightarrow> (VOICE_ERR_INVALID_PARAM, ctxp, buffer, bytes_written)
           | Some buf \<Rightarrow>
               (case bytes_written of
                  None \<Rightarrow> (VOICE_ERR_INVALID_PARAM, ctxp, buffer, bytes_written)
                | Some _ \<Rightarrow>
                    if recording_size ctx = 0 then (VOICE_OK, Some ctx, Some buf, Some 0)
                    else
                      let copy_size = (if recording_size ctx < buffer_size
                                       then recording_size ctx else buffer_size)
                      in (VOICE_OK,
                          Some (ctx\<lparr> recording_size := 0, state := VOICE_STATE_IDLE \<rparr>),
                          Some (memcpy buf (recording_buffer ctx) copy_size),
                          Some copy_size))))"

definition voice_reset :: "voice_context option \<Rightarrow> voice_error \<times> voice_context option" where
  "voice_reset ctxp =
     (case ctxp of
        None \<Rightarrow> (VOICE_ERR_INVALID_PARAM, None)
      | Some ctx \<Rightarrow>
          (VOICE_OK,
           Some (ctx\<lparr> state := VOICE_STATE_IDLE,
                      recording_size := 0,
                      is_recording := False,
                      vad_frame_count := 0,
                      vad_active := False,
                      stats := zero_stats\<lparr> noise_floor_db := noise_floor ctx \<rparr> \<rparr>)))"

definition voice_calibrate_noise ::
    "voice_consts \<Rightarrow> voice_context option \<Rightarrow> 32 word \<Rightarrow> voice_error \<times> voice_context option" where
  "voice_calibrate_noise K ctxp duration_ms =
     (case ctxp of
        None \<Rightarrow> (VOICE_ERR_INVALID_PARAM, None)
      | Some ctx \<Rightarrow>
          if duration_ms < 100 then (VOICE_ERR_INVALID_PARAM, Some ctx)
          else (VOICE_OK, Some (ctx\<lparr> noise_floor := VAD_ENERGY_THRESHOLD K \<rparr>)))"

definition voice_register_wake_word ::
    "voice_consts \<Rightarrow> voice_context option \<Rightarrow> wake_word_model option
       \<Rightarrow> voice_error \<times> voice_context option" where
  "voice_register_wake_word K ctxp model =
     (case ctxp of
        None \<Rightarrow> (VOICE_ERR_INVALID_PARAM, None)
      | Some ctx \<Rightarrow>
          (case model of
             None \<Rightarrow> (VOICE_ERR_INVALID_PARAM, Some ctx)
           | Some m \<Rightarrow>
               if num_wake_words (config ctx) \<ge> MAX_WAKE_WORDS K
               then (VOICE_ERR_INVALID_PARAM, Some ctx)
               else (VOICE_OK,
                     Some (ctx\<lparr> config := (config ctx)
                             \<lparr> wake_words := (wake_words (config ctx))
                                                [num_wake_words (config ctx) := m],
                               num_wake_words := num_wake_words (config ctx) + 1 \<rparr> \<rparr>))))"

text \<open>The expiry of the wake timeout timer.\<close>

definition voice_timeout_callback :: "voice_context \<Rightarrow> voice_context" where
  "voice_timeout_callback ctx =
     (if state ctx = VOICE_STATE_WAKE_DETECTED then ctx\<lparr> state := VOICE_STATE_IDLE \<rparr> else ctx)"

subsection \<open>Energy and voice activity detection\<close>

text \<open>
  \<^verbatim>\<open>calculate_energy_db\<close>: \<open>-100\<close> for a NULL or empty array, else
  \<^verbatim>\<open>20.0f * log10f(fmaxf(rms, 1e-6f))\<close> for the root mean square of the samples divided
  by \<open>32768\<close>; the sum of the squares is accumulated from \<open>0\<close> in the order of the
  samples.
\<close>

definition calculate_energy_db :: "float_ops \<Rightarrow> 16 word list option \<Rightarrow> nat \<Rightarrow> real" where
  "calculate_energy_db F samplesp num_samples =
     (case samplesp of
        None \<Rightarrow> -100
      | Some smp \<Rightarrow>
          if num_samples = 0 then -100
          else
            let sum = foldl (\<lambda>s i. let normalized = f_div F (f_of_int F (sint (smp ! i))) 32768
                                    in f_add F s (f_mul F normalized normalized))
                            0 [0..<num_samples];
                rms = f_sqrt F (f_div F sum (f_of_int F (int num_samples)))
            in f_mul F 20 (f_log10 F (max rms (f_lit F (1 / 1000000)))))"

text \<open>The local array \<^verbatim>\<open>channel_samples\<close> that the detector fills for channel \<open>ch\<close>.\<close>

definition channel_samples :: "voice_consts \<Rightarrow> voice_frame \<Rightarrow> nat \<Rightarrow> 16 word list" where
  "channel_samples K frame ch =
     map (\<lambda>i. samples frame ! (i * VOICE_CHANNELS K + ch)) [0..<VOICE_FRAME_SIZE K]"

text \<open>
  \<^verbatim>\<open>update_noise_floor\<close>: \<^verbatim>\<open>alpha * ctx->noise_floor + (1.0f - alpha) * current_energy\<close>
  with \<^verbatim>\<open>alpha = 0.95f\<close>.
\<close>

definition update_noise_floor :: "float_ops \<Rightarrow> voice_context \<Rightarrow> real \<Rightarrow> voice_context" where
  "update_noise_floor F ctx current_energy =
     (let alpha = f_lit F (95 / 100);
          nf = f_add F (f_mul F alpha (noise_floor ctx))
                       (f_mul F (f_sub F 1 alpha) current_energy)
      in ctx\<lparr> noise_floor := nf, stats := (stats ctx)\<lparr> noise_floor_db := nf \<rparr> \<rparr>)"

text \<open>
  The loop over the channels in \<^verbatim>\<open>detect_voice_activity\<close>. The accumulator holds
  \<^verbatim>\<open>total_energy\<close>, \<^verbatim>\<open>active_channels\<close> and the frame's \<^verbatim>\<open>energy_db\<close> array; \<open>nf\<close> is
  \<^verbatim>\<open>ctx->noise_floor\<close>, which the loop does not write.
\<close>

primrec vad_channel_loop ::
    "float_ops \<Rightarrow> voice_consts \<Rightarrow> real \<Rightarrow> voice_frame \<Rightarrow> nat list \<Rightarrow> real \<times> int \<times> real list
       \<Rightarrow> real \<times> int \<times> real list" where
  "vad_channel_loop F K nf frame [] acc = acc"
| "vad_channel_loop F K nf frame (ch # chs) acc =
     (case acc of (total_energy, active_channels, edb) \<Rightarrow>
        let energy = calculate_energy_db F (Some (channel_samples K frame ch)) (VOICE_FRAME_SIZE K)
        in vad_channel_loop F K nf frame chs
             (f_add F total_energy energy,
              (if energy > f_add F nf 6 then active_channels + 1 else active_channels),
              edb[ch := energy]))"

text \<open>
  \<^verbatim>\<open>detect_voice_activity\<close> returns its result, the context and the frame, whose
  \<^verbatim>\<open>energy_db\<close> it fills.
\<close>

definition detect_voice_activity ::
    "float_ops \<Rightarrow> voice_consts \<Rightarrow> voice_context \<Rightarrow> voice_frame
       \<Rightarrow> bool \<times> voice_context \<times> voice_frame" where
  "detect_voice_activity F K ctx frame =
     (case vad_channel_loop F K (noise_floor ctx) frame [0..<VOICE_CHANNELS K]
             (0, 0, energy_db frame) of
        (total_energy, active_channels, edb) \<Rightarrow>
          let avg_energy = f_div F total_energy (f_of_int F (int (VOICE_CHANNELS K)));
              ctx1 = ctx\<lparr> stats := (stats ctx)\<lparr> avg_energy_db := avg_energy \<rparr> \<rparr>;
              ctx2 = (if \<not> vad_active ctx1 then update_noise_floor F ctx1 avg_energy else ctx1);
              energy_vad = (avg_energy > f_add F (noise_floor ctx2) 10);
              channel_vad = (active_channels \<ge> int (VOICE_CHANNELS K div 2));
              ctx3 = (if energy_vad \<and> channel_vad
                      then ctx2\<lparr> vad_frame_count := vad_frame_count ctx2 + 1 \<rparr>
                      else ctx2\<lparr> vad_frame_count := 0 \<rparr>);
              ctx4 = ctx3\<lparr> vad_active := (unat (vad_frame_count ctx3) \<ge> VAD_FRAME_THRESHOLD K) \<rparr>
          in (vad_active ctx4, ctx4, frame\<lparr> energy_db := edb \<rparr>))"

subsection \<open>Beamforming and mono mixdown\<close>

text \<open>
  \<^verbatim>\<open>apply_beamforming\<close> computes a delay for every channel and sets every weight to
  \<^verbatim>\<open>1.0f / VOICE_CHANNELS\<close>; it does not touch the frame. (The steering angle in radians
  is computed with the \<^verbatim>\<open>double\<close> constant \<^verbatim>\<open>M_PI\<close>; the operations of \<open>F\<close> stand for
  those steps as well. No property below reads a delay.)
\<close>

definition apply_beamforming :: "float_ops \<Rightarrow> voice_consts \<Rightarrow> voice_context \<Rightarrow> voice_context" where
  "apply_beamforming F K ctx =
     (let steering_rad = f_div F (f_mul F (current_steering_angle ctx) (f_lit F pi)) 180;
          speed_of_sound = 343
      in fold (\<lambda>ch c.
                 let dx = mic_positions (beamform (config c)) ! ch ! 0;
                     dy = mic_positions (beamform (config c)) ! ch ! 1;
                     delay = f_div F
                               (f_mul F (f_add F (f_mul F dx (f_cos F steering_rad))
                                                 (f_mul F dy (f_sin F steering_rad)))
                                        (f_of_int F (int (VOICE_SAMPLE_RATE K))))
                               speed_of_sound
                 in c\<lparr> beamform_delays := (beamform_delays c)[ch := delay],
                        beamform_weights := (beamform_weights c)
                          [ch := f_div F 1 (f_of_int F (int (VOICE_CHANNELS K)))] \<rparr>)
              [0..<VOICE_CHANNELS K] ctx)"

text \<open>The cast of a \<^verbatim>\<open>float\<close> to an integer type discards the fractional part.\<close>

definition float_to_int :: "real \<Rightarrow> int" where
  "float_to_int r = (if r \<ge> 0 then \<lfloor>r\<rfloor> else \<lceil>r\<rceil>)"

text \<open>
  One sample of the mixdown:
  \<^verbatim>\<open>(int16_t)fminf(fmaxf(sum, -32768.0f), 32767.0f)\<close>, where \<^verbatim>\<open>sum\<close> accumulates
  \<^verbatim>\<open>frame.samples[i * VOICE_CHANNELS + ch] * ctx->beamform_weights[ch]\<close> from \<open>0\<close> in the
  order of the channels.
\<close>

definition mono_sample ::
    "float_ops \<Rightarrow> voice_consts \<Rightarrow> voice_context \<Rightarrow> voice_frame \<Rightarrow> nat \<Rightarrow> 16 word" where
  "mono_sample F K ctx frame i =
     (let sum = foldl (\<lambda>s ch. f_add F s
                                (f_mul F (f_of_int F (sint (samples frame ! (i * VOICE_CHANNELS K + ch))))
                                         (beamform_weights ctx ! ch)))
                      0 [0..<VOICE_CHANNELS K]
      in word_of_int (float_to_int (min (max sum (-32768)) 32767)))"

definition mono_frame :: "float_ops \<Rightarrow> voice_consts \<Rightarrow> voice_context \<Rightarrow> voice_frame \<Rightarrow> 16 word list" where
  "mono_frame F K ctx frame = map (mono_sample F K ctx frame) [0..<VOICE_FRAME_SIZE K]"

text \<open>
  The bytes of an \<^verbatim>\<open>int16_t\<close> array as \<^verbatim>\<open>memcpy\<close> reads them, low byte first (the byte
  order the specification fixes for the recording).
\<close>

definition int16_bytes :: "16 word list \<Rightarrow> 8 word list" where
  "int16_bytes ws = concat (map (\<lambda>w. [ucast w, ucast (drop_bit 8 w)]) ws)"

subsection \<open>Wake word detection\<close>

text \<open>
  The loop that calls the first non-NULL callback among the registered wake words and
  stops: \<open>tr\<close> is the trace of callbacks invoked.
\<close>

primrec call_wake_callback :: "wake_word_model list \<Rightarrow> nat list \<Rightarrow> nat list \<Rightarrow> nat list" where
  "call_wake_callback ws [] tr = tr"
| "call_wake_callback ws (i # idxs) tr =
     (case callback (ws ! i) of
        Some cb \<Rightarrow> tr @ [cb]
      | None \<Rightarrow> call_wake_callback ws idxs tr)"

text \<open>
  \<^verbatim>\<open>simulation_counter\<close> is a C \<^verbatim>\<open>int\<close>, here an unbounded integer: it is positive after
  the increment, so that \<^verbatim>\<open>%\<close> is \<open>mod\<close>. \<^verbatim>\<open>xTimerReset\<close> arms the timer whose expiry
  is \<open>voice_timeout_callback\<close>; the timer is not state of the model.
\<close>

definition process_wake_word_detection :: "voice_context \<Rightarrow> voice_frame \<Rightarrow> voice_context" where
  "process_wake_word_detection ctx frame =
     (let ctx1 = ctx\<lparr> simulation_counter := simulation_counter ctx + 1 \<rparr>
      in if frame_vad_active frame \<and> simulation_counter ctx1 mod 500 = 0
         then
           let ctx2 = ctx1\<lparr> state := VOICE_STATE_WAKE_DETECTED,
                            last_wake_time := timestamp_ms frame,
                            stats := (stats ctx1)\<lparr> wake_detections := wake_detections (stats ctx1) + 1 \<rparr> \<rparr>
           in ctx2\<lparr> wake_callback_calls :=
                      call_wake_callback (wake_words (config ctx2))
                        [0..<num_wake_words (config ctx2)] (wake_callback_calls ctx2) \<rparr>
         else ctx1)"

subsection \<open>The processing task\<close>

text \<open>The body of \<^verbatim>\<open>case VOICE_STATE_RECORDING\<close>: append the mixdown, then check the timeout.\<close>

definition record_append ::
    "float_ops \<Rightarrow> voice_consts \<Rightarrow> voice_context \<Rightarrow> voice_frame \<Rightarrow> voice_context" where
  "record_append F K ctx frame =
     (if frame_vad_active frame \<and> is_recording ctx
      then
        let frame_bytes = VOICE_FRAME_SIZE K * 2
        in if recording_size ctx + frame_bytes \<le> recording_capacity ctx
           then ctx\<lparr> recording_buffer :=
                        memcpy_at (recording_buffer ctx) (recording_size ctx)
                          (int16_bytes (mono_frame F K ctx frame)),
                      recording_size := recording_size ctx + frame_bytes \<rparr>
           else ctx
      else ctx)"

definition record_frame ::
    "float_ops \<Rightarrow> voice_consts \<Rightarrow> voice_context \<Rightarrow> voice_frame \<Rightarrow> voice_context" where
  "record_frame F K ctx frame =
     (let ctx1 = record_append F K ctx frame
      in if timestamp_ms frame - recording_start_time ctx1 > max_recording_duration ctx1
         then (case snd (voice_stop_recording (Some ctx1)) of Some c \<Rightarrow> c | None \<Rightarrow> ctx1)
         else ctx1)"

text \<open>
  One iteration of \<^verbatim>\<open>voice_processing_task\<close> on a dequeued frame, in its two parts.
  \<open>task_analyse_frame\<close> is the part before the \<^verbatim>\<open>switch\<close>: the frame counter, the
  beamformer when it is enabled, the detector, whose result is stored in the frame, and
  the activation counter. It returns the context and the annotated frame. The condition
  \<^verbatim>\<open>adaptive_mode || current_steering_angle != 0.0f\<close> is evaluated left to right.
\<close>

definition task_analyse_frame ::
    "float_ops \<Rightarrow> voice_consts \<Rightarrow> voice_context \<Rightarrow> voice_frame \<Rightarrow> voice_context \<times> voice_frame" where
  "task_analyse_frame F K ctx0 frame0 =
     (let ctx1 = ctx0\<lparr> stats := (stats ctx0)\<lparr> frames_processed := frames_processed (stats ctx0) + 1 \<rparr> \<rparr>;
          ctx2 = (if adaptive_mode (beamform (config ctx1)) then apply_beamforming F K ctx1
                  else if current_steering_angle ctx1 = 0 then ctx1
                  else apply_beamforming F K ctx1)
      in case detect_voice_activity F K ctx2 frame0 of
           (vad_result, ctx3, frame1) \<Rightarrow>
             let frame2 = frame1\<lparr> frame_vad_active := vad_result \<rparr>;
                 ctx4 = (if vad_result
                         then ctx3\<lparr> stats := (stats ctx3)\<lparr> vad_activations := vad_activations (stats ctx3) + 1 \<rparr> \<rparr>
                         else ctx3)
             in (ctx4, frame2))"

text \<open>
  \<open>task_state_machine\<close> is the \<^verbatim>\<open>switch\<close> on the state; the case
  \<^verbatim>\<open>VOICE_STATE_WAKE_DETECTED\<close> falls through to the recording case.
\<close>

definition task_state_machine ::
    "float_ops \<Rightarrow> voice_consts \<Rightarrow> voice_context \<Rightarrow> voice_frame \<Rightarrow> voice_context" where
  "task_state_machine F K ctx frame =
     (case state ctx of
        VOICE_STATE_IDLE \<Rightarrow> process_wake_word_detection ctx frame
      | VOICE_STATE_LISTENING \<Rightarrow> process_wake_word_detection ctx frame
      | VOICE_STATE_WAKE_DETECTED \<Rightarrow>
          record_frame F K
            (ctx\<lparr> state := VOICE_STATE_RECORDING,
                   recording_start_time := timestamp_ms frame,
                   recording_size := 0,
                   is_recording := True \<rparr>)
            frame
      | VOICE_STATE_RECORDING \<Rightarrow> record_frame F K ctx frame
      | VOICE_STATE_PROCESSING \<Rightarrow> ctx
      | VOICE_STATE_ERROR \<Rightarrow> ctx)"

definition voice_processing_step ::
    "float_ops \<Rightarrow> voice_consts \<Rightarrow> voice_context \<Rightarrow> voice_frame \<Rightarrow> voice_context \<times> voice_frame" where
  "voice_processing_step F K ctx0 frame0 =
     (case task_analyse_frame F K ctx0 frame0 of
        (ctx4, frame2) \<Rightarrow> (task_state_machine F K ctx4 frame2, frame2))"

text \<open>The task on a sequence of frames, in the order of the queue.\<close>

primrec voice_processing_run ::
    "float_ops \<Rightarrow> voice_consts \<Rightarrow> voice_context \<Rightarrow> voice_frame list \<Rightarrow> voice_context" where
  "voice_processing_run F K ctx [] = ctx"
| "voice_processing_run F K ctx (f # fs) =
     voice_processing_run F K (fst (voice_processing_step F K ctx f)) fs"

subsection \<open>The iteration in closed form\<close>

text \<open>The energy of channel \<open>ch\<close> of a frame, as the detector computes it.\<close>

definition channel_energy :: "float_ops \<Rightarrow> voice_consts \<Rightarrow> voice_frame \<Rightarrow> nat \<Rightarrow> real" where
  "channel_energy F K frame ch =
     calculate_energy_db F (Some (channel_samples K frame ch)) (VOICE_FRAME_SIZE K)"

text \<open>The average energy that the detector computes: the total, accumulated from 0.\<close>

definition frame_avg_energy :: "float_ops \<Rightarrow> voice_consts \<Rightarrow> voice_frame \<Rightarrow> real" where
  "frame_avg_energy F K frame =
     f_div F (foldl (f_add F) 0 (map (channel_energy F K frame) [0..<VOICE_CHANNELS K]))
             (f_of_int F (int (VOICE_CHANNELS K)))"

text \<open>The number of channels that the detector counts as active against the floor \<open>nf\<close>.\<close>

definition active_channel_count :: "float_ops \<Rightarrow> voice_consts \<Rightarrow> real \<Rightarrow> voice_frame \<Rightarrow> nat" where
  "active_channel_count F K nf frame =
     length (filter (\<lambda>ch. channel_energy F K frame ch > f_add F nf 6) [0..<VOICE_CHANNELS K])"

text \<open>
  The noise floor, the frame counter and the decision of the detector for a frame, in
  closed form.
\<close>

definition vad_floor :: "float_ops \<Rightarrow> voice_consts \<Rightarrow> voice_context \<Rightarrow> voice_frame \<Rightarrow> real" where
  "vad_floor F K ctx frame =
     (if vad_active ctx then noise_floor ctx
      else f_add F (f_mul F (f_lit F (95 / 100)) (noise_floor ctx))
                   (f_mul F (f_sub F 1 (f_lit F (95 / 100))) (frame_avg_energy F K frame)))"

definition vad_count :: "float_ops \<Rightarrow> voice_consts \<Rightarrow> voice_context \<Rightarrow> voice_frame \<Rightarrow> 32 word" where
  "vad_count F K ctx frame =
     (if frame_avg_energy F K frame > f_add F (vad_floor F K ctx frame) 10
         \<and> active_channel_count F K (noise_floor ctx) frame \<ge> VOICE_CHANNELS K div 2
      then vad_frame_count ctx + 1 else 0)"

definition vad_decision :: "float_ops \<Rightarrow> voice_consts \<Rightarrow> voice_context \<Rightarrow> voice_frame \<Rightarrow> bool" where
  "vad_decision F K ctx frame = (unat (vad_count F K ctx frame) \<ge> VAD_FRAME_THRESHOLD K)"

text \<open>The delay that the beamformer computes for channel \<open>ch\<close>.\<close>

definition steer_delay :: "float_ops \<Rightarrow> voice_consts \<Rightarrow> voice_context \<Rightarrow> nat \<Rightarrow> real" where
  "steer_delay F K ctx ch =
     f_div F
       (f_mul F
          (f_add F
             (f_mul F (mic_positions (beamform (config ctx)) ! ch ! 0)
                      (f_cos F (f_div F (f_mul F (current_steering_angle ctx) (f_lit F pi)) 180)))
             (f_mul F (mic_positions (beamform (config ctx)) ! ch ! 1)
                      (f_sin F (f_div F (f_mul F (current_steering_angle ctx) (f_lit F pi)) 180))))
          (f_of_int F (int (VOICE_SAMPLE_RATE K))))
       343"

text \<open>The context after the beamforming step of an iteration, which runs only when enabled.\<close>

definition beamformed :: "float_ops \<Rightarrow> voice_consts \<Rightarrow> voice_context \<Rightarrow> voice_context" where
  "beamformed F K ctx =
     (if adaptive_mode (beamform (config ctx)) then apply_beamforming F K ctx
      else if current_steering_angle ctx = 0 then ctx
      else apply_beamforming F K ctx)"

text \<open>The condition under which the recording case appends the frame to the recording.\<close>

definition appends :: "voice_consts \<Rightarrow> voice_context \<Rightarrow> voice_frame \<Rightarrow> bool" where
  "appends K c f = (frame_vad_active f \<and> is_recording c
                      \<and> recording_size c + 2 * VOICE_FRAME_SIZE K \<le> recording_capacity c)"

text \<open>
  A context within a recording session: recording, stopped, or woken with an empty
  recording; the recording buffer has the size of the capacity, as allocated.
\<close>

definition in_session :: "voice_context \<Rightarrow> bool" where
  "in_session c =
     ((state c = VOICE_STATE_RECORDING \<or> state c = VOICE_STATE_PROCESSING
        \<or> (state c = VOICE_STATE_WAKE_DETECTED \<and> recording_size c = 0))
      \<and> length (recording_buffer c) = recording_capacity c)"

subsection \<open>The formulas of the specification\<close>

text \<open>
  The definitions of this section do not unfold the functions above: they write down
  what the specification says, over the samples of a frame, with the operations \<open>F\<close>
  applied in the order in which the code applies them. The properties below compare the
  program with them.

  The energy of a channel: \<open>20 * log10 (max rms 1e-6)\<close> with
  \<open>rms = sqrt (mean ((s / 32768)\<^sup>2))\<close> over the samples \<open>s\<close> of the channel, which lie
  at the indices \<open>i * VOICE_CHANNELS + ch\<close> of the interleaved frame.
\<close>

definition spec_rms :: "float_ops \<Rightarrow> voice_consts \<Rightarrow> voice_frame \<Rightarrow> nat \<Rightarrow> real" where
  "spec_rms F K frame ch =
     f_sqrt F
       (f_div F
          (foldl (\<lambda>acc i. f_add F acc
                    (f_mul F (f_div F (f_of_int F (sint (samples frame ! (i * VOICE_CHANNELS K + ch)))) 32768)
                             (f_div F (f_of_int F (sint (samples frame ! (i * VOICE_CHANNELS K + ch)))) 32768)))
                 0 [0..<VOICE_FRAME_SIZE K])
          (f_of_int F (int (VOICE_FRAME_SIZE K))))"

definition spec_energy_db :: "float_ops \<Rightarrow> voice_consts \<Rightarrow> voice_frame \<Rightarrow> nat \<Rightarrow> real" where
  "spec_energy_db F K frame ch =
     f_mul F 20 (f_log10 F (max (spec_rms F K frame ch) (f_lit F (1 / 1000000))))"

text \<open>The average energy of a frame over its channels.\<close>

definition spec_avg_energy :: "float_ops \<Rightarrow> voice_consts \<Rightarrow> voice_frame \<Rightarrow> real" where
  "spec_avg_energy F K frame =
     f_div F (foldl (\<lambda>total ch. f_add F total (spec_energy_db F K frame ch)) 0 [0..<VOICE_CHANNELS K])
             (f_of_int F (int (VOICE_CHANNELS K)))"

text \<open>The number of channels whose energy is more than 6 dB above the floor \<open>nf\<close>.\<close>

definition spec_active_channels :: "float_ops \<Rightarrow> voice_consts \<Rightarrow> real \<Rightarrow> voice_frame \<Rightarrow> nat" where
  "spec_active_channels F K nf frame =
     card {ch. ch < VOICE_CHANNELS K \<and> spec_energy_db F K frame ch > f_add F nf 6}"


text \<open>
  The mono mixdown: \<open>mono[i] = saturate_i16 (\<Sum>ch. weights[ch] * samples[i * CHANNELS + ch])\<close>,
  clamped to \<open>[-32768, 32767]\<close>; a value within the range loses its fraction.
\<close>

definition saturate_i16 :: "real \<Rightarrow> 16 word" where
  "saturate_i16 r =
     (if r < - 32768 then - 32768
      else if 32767 < r then 32767
      else if r < 0 then word_of_int (- \<lfloor>- r\<rfloor>)
      else word_of_int \<lfloor>r\<rfloor>)"

definition spec_mono_sample ::
    "float_ops \<Rightarrow> voice_consts \<Rightarrow> real list \<Rightarrow> 16 word list \<Rightarrow> nat \<Rightarrow> 16 word" where
  "spec_mono_sample F K weights smp i =
     saturate_i16
       (foldl (\<lambda>acc ch. f_add F acc
                 (f_mul F (f_of_int F (sint (smp ! (i * VOICE_CHANNELS K + ch)))) (weights ! ch)))
              0 [0..<VOICE_CHANNELS K])"

definition spec_mono_mixdown ::
    "float_ops \<Rightarrow> voice_consts \<Rightarrow> real list \<times> 16 word list \<Rightarrow> 16 word list" where
  "spec_mono_mixdown F K input =
     map (spec_mono_sample F K (fst input) (snd input)) [0..<VOICE_FRAME_SIZE K]"

text \<open>Mono PCM as bytes: 16-bit samples, little-endian.\<close>

definition spec_pcm_le :: "16 word list \<Rightarrow> 8 word list" where
  "spec_pcm_le ws = concat (map (\<lambda>w. [word_of_nat (unat w mod 256), word_of_nat (unat w div 256)]) ws)"

text \<open>
  The first registered wake word that has a callback: the first non-NULL callback among
  the entries \<open>0..<num_wake_words\<close> of the registry.
\<close>

definition first_wake_callback :: "voice_config \<Rightarrow> nat option" where
  "first_wake_callback cfg =
     (case filter (\<lambda>i. callback (wake_words cfg ! i) \<noteq> None) [0..<num_wake_words cfg] of
        [] \<Rightarrow> None
      | i # _ \<Rightarrow> callback (wake_words cfg ! i))"

text \<open>
  The frame that an iteration of the task appends to the recording, if it appends one:
  the iteration reaches the recording case (from \<open>VOICE_STATE_RECORDING\<close> while
  \<open>is_recording\<close> holds, or from \<open>VOICE_STATE_WAKE_DETECTED\<close>, which starts the recording
  at size 0), the frame is VAD-active, and its \<open>2 * VOICE_FRAME_SIZE\<close> bytes fit into
  the capacity. The result is the input of the mixdown: the beamforming weights in
  force and the samples of the frame.
\<close>

definition appended_input ::
    "float_ops \<Rightarrow> voice_consts \<Rightarrow> voice_context \<Rightarrow> voice_frame \<Rightarrow> (real list \<times> 16 word list) option" where
  "appended_input F K ctx0 frame0 =
     (case task_analyse_frame F K ctx0 frame0 of
        (ctx4, frame2) \<Rightarrow>
          if frame_vad_active frame2
             \<and> ((state ctx4 = VOICE_STATE_RECORDING \<and> is_recording ctx4
                  \<and> recording_size ctx4 + 2 * VOICE_FRAME_SIZE K \<le> recording_capacity ctx4)
                \<or> (state ctx4 = VOICE_STATE_WAKE_DETECTED
                    \<and> 2 * VOICE_FRAME_SIZE K \<le> recording_capacity ctx4))
          then Some (beamform_weights ctx4, samples frame2)
          else None)"

text \<open>The frames appended while the task processes a sequence of frames, in order.\<close>

primrec session_inputs ::
    "float_ops \<Rightarrow> voice_consts \<Rightarrow> voice_context \<Rightarrow> voice_frame list \<Rightarrow> (real list \<times> 16 word list) list" where
  "session_inputs F K ctx [] = []"
| "session_inputs F K ctx (f # fs) =
     (case appended_input F K ctx f of Some p \<Rightarrow> [p] | None \<Rightarrow> [])
       @ session_inputs F K (fst (voice_processing_step F K ctx f)) fs"

subsection \<open>Concrete inputs\<close>

text \<open>A configuration without registered wake words, microphones at the origin.\<close>

definition plain_config :: voice_config where
  "plain_config =
     \<lparr> beamform = \<lparr> adaptive_mode = False, mic_positions = replicate 4 [0, 0, 0] \<rparr>,
       num_wake_words = 0,
       wake_words = replicate 4 \<lparr> ww_name = [], ww_threshold = 0, callback = None \<rparr> \<rparr>"

text \<open>The context after a successful \<^verbatim>\<open>voice_init\<close> at time 0 with the typical constants.\<close>

definition fresh_ctx :: voice_context where
  "fresh_ctx = voice_init_ok exact_float typical_consts plain_config 0 (replicate 320000 0)"

text \<open>A frame at full negative scale on every channel (0 dBFS), with the given timestamp.\<close>

definition loud_frame :: "32 word \<Rightarrow> voice_frame" where
  "loud_frame ts =
     \<lparr> samples = replicate 1920 (-32768), timestamp_ms = ts,
       energy_db = replicate 4 0, frame_vad_active = False \<rparr>"

text \<open>A frame of silence.\<close>

definition quiet_frame :: "32 word \<Rightarrow> voice_frame" where
  "quiet_frame ts =
     \<lparr> samples = replicate 1920 0, timestamp_ms = ts,
       energy_db = replicate 4 0, frame_vad_active = False \<rparr>"

text \<open>A frame with three channels at full negative scale and the value 5 on the fourth.\<close>

definition mixed_frame :: "32 word \<Rightarrow> voice_frame" where
  "mixed_frame ts =
     \<lparr> samples = concat (replicate 480 [-32768, -32768, -32768, 5]), timestamp_ms = ts,
       energy_db = replicate 4 0, frame_vad_active = False \<rparr>"

text \<open>A frame with the value 700 on three channels and the fourth at full negative scale.\<close>

definition uneven_frame :: "32 word \<Rightarrow> voice_frame" where
  "uneven_frame ts =
     \<lparr> samples = concat (replicate 480 [700, 700, 700, -32768]), timestamp_ms = ts,
       energy_db = replicate 4 0, frame_vad_active = False \<rparr>"

text \<open>The session after \<^verbatim>\<open>voice_start_recording(ctx, 2000)\<close> on the fresh context.\<close>

definition recording_ctx :: voice_context where
  "recording_ctx =
     (case snd (voice_start_recording 0 (Some fresh_ctx) 2000) of
        Some c \<Rightarrow> c | None \<Rightarrow> fresh_ctx)"

text \<open>The recording session stopped before any frame was processed.\<close>

definition stopped_ctx :: voice_context where
  "stopped_ctx =
     (case snd (voice_stop_recording (Some recording_ctx)) of
        Some c \<Rightarrow> c | None \<Rightarrow> recording_ctx)"


definition speech_ctx :: voice_context where
  "speech_ctx =
     voice_processing_run exact_float typical_consts fresh_ctx
       [loud_frame 0, loud_frame 30, loud_frame 60]"

text \<open>
  Nine times three loud frames and a frame of silence, from the fresh context. The loud
  frames of a round raise the noise floor and switch the detector on, the silence
  switches it off again and leaves the floor where it is.
\<close>

definition warmup_round :: "32 word \<Rightarrow> voice_frame list" where
  "warmup_round t = [loud_frame t, loud_frame (t + 30), loud_frame (t + 60), quiet_frame (t + 90)]"

definition warm_ctx :: voice_context where
  "warm_ctx =
     voice_processing_run exact_float typical_consts fresh_ctx
       (warmup_round 0 @ warmup_round 120 @ warmup_round 240 @ warmup_round 360
          @ warmup_round 480 @ warmup_round 600 @ warmup_round 720 @ warmup_round 840
          @ warmup_round 960)"

text \<open>
  The context after three loud frames when the simulation counter stands at 499. The
  counter is a \<^verbatim>\<open>static\<close> local of the detection function: it is shared by all contexts
  and survives \<^verbatim>\<open>voice_deinit\<close>.
\<close>

definition wake_due_ctx :: voice_context where
  "wake_due_ctx = speech_ctx\<lparr> simulation_counter := 499 \<rparr>"

text \<open>A recording started by \<^verbatim>\<open>voice_start_recording(ctx, 2000)\<close> while the detector is active.\<close>

definition speech_recording_ctx :: voice_context where
  "speech_recording_ctx =
     (case snd (voice_start_recording 0 (Some speech_ctx) 2000) of
        Some c \<Rightarrow> c | None \<Rightarrow> speech_ctx)"

text \<open>
  Three wake words registered in a row: the first without a callback, then callbacks 7
  and 9.
\<close>

definition registered_ctx :: voice_context where
  "registered_ctx =
     (let m1 = \<lparr> ww_name = ''one'', ww_threshold = 1/2, callback = None \<rparr>;
          m2 = \<lparr> ww_name = ''two'', ww_threshold = 1/2, callback = Some 7 \<rparr>;
          m3 = \<lparr> ww_name = ''three'', ww_threshold = 1/2, callback = Some 9 \<rparr>;
          r1 = snd (voice_register_wake_word typical_consts (Some wake_due_ctx) (Some m1));
          r2 = snd (voice_register_wake_word typical_consts r1 (Some m2));
          r3 = snd (voice_register_wake_word typical_consts r2 (Some m3))
      in case r3 of Some c \<Rightarrow> c | None \<Rightarrow> wake_due_ctx)"

section \<open>Properties\<close>

subsection \<open>One iteration in closed form\<close>

text \<open>
  The loop of the detector and that of the beamformer as folds, and what one iteration of
  the task does to the fields of the context that the properties below are about.
\<close>

lemma vad_channel_loop_eq:
  "vad_channel_loop F K nf frame chs (t, a, e) =
     (foldl (f_add F) t (map (channel_energy F K frame) chs),
      a + int (length (filter (\<lambda>ch. channel_energy F K frame ch > f_add F nf 6) chs)),
      fold (\<lambda>ch edb. edb[ch := channel_energy F K frame ch]) chs e)"
  by (induction chs arbitrary: t a e) (simp_all add: channel_energy_def Let_def)

lemma beamform_fold:
  fixes c0 :: voice_context
  shows "fold (\<lambda>ch c. c\<lparr> beamform_delays := (beamform_delays c)[ch := D (config c) ch],
                          beamform_weights := (beamform_weights c)[ch := v] \<rparr>)
              chs c0
         = c0\<lparr> beamform_delays := fold (\<lambda>ch d. d[ch := D (config c0) ch]) chs (beamform_delays c0),
                beamform_weights := fold (\<lambda>ch w. w[ch := v]) chs (beamform_weights c0) \<rparr>"
  by (induction chs arbitrary: c0) simp_all

lemma apply_beamforming_eq:
  "apply_beamforming F K ctx =
     ctx\<lparr> beamform_delays :=
            fold (\<lambda>ch d. d[ch := steer_delay F K ctx ch]) [0..<VOICE_CHANNELS K] (beamform_delays ctx),
          beamform_weights :=
            fold (\<lambda>ch w. w[ch := f_div F 1 (f_of_int F (int (VOICE_CHANNELS K)))])
                 [0..<VOICE_CHANNELS K] (beamform_weights ctx) \<rparr>"
proof -
  let ?sr = "f_div F (f_mul F (current_steering_angle ctx) (f_lit F pi)) 180"
  let ?D = "\<lambda>cfg ch. f_div F
               (f_mul F (f_add F (f_mul F (mic_positions (beamform cfg) ! ch ! 0) (f_cos F ?sr))
                                 (f_mul F (mic_positions (beamform cfg) ! ch ! 1) (f_sin F ?sr)))
                        (f_of_int F (int (VOICE_SAMPLE_RATE K))))
               343"
  have "apply_beamforming F K ctx =
          fold (\<lambda>ch c. c\<lparr> beamform_delays := (beamform_delays c)[ch := ?D (config c) ch],
                          beamform_weights := (beamform_weights c)
                            [ch := f_div F 1 (f_of_int F (int (VOICE_CHANNELS K)))] \<rparr>)
               [0..<VOICE_CHANNELS K] ctx"
    unfolding apply_beamforming_def Let_def ..
  also have "\<dots> = ctx\<lparr> beamform_delays :=
            fold (\<lambda>ch d. d[ch := ?D (config ctx) ch]) [0..<VOICE_CHANNELS K] (beamform_delays ctx),
          beamform_weights :=
            fold (\<lambda>ch w. w[ch := f_div F 1 (f_of_int F (int (VOICE_CHANNELS K)))])
                 [0..<VOICE_CHANNELS K] (beamform_weights ctx) \<rparr>"
    by (rule beamform_fold)
  finally show ?thesis
    unfolding steer_delay_def .
qed

lemma detect_voice_activity_eq:
  "detect_voice_activity F K ctx frame =
     (vad_decision F K ctx frame,
      ctx\<lparr> noise_floor := vad_floor F K ctx frame,
           vad_frame_count := vad_count F K ctx frame,
           vad_active := vad_decision F K ctx frame,
           stats := (stats ctx)\<lparr> avg_energy_db := frame_avg_energy F K frame,
                      noise_floor_db := (if vad_active ctx then noise_floor_db (stats ctx)
                                         else vad_floor F K ctx frame) \<rparr> \<rparr>,
      frame\<lparr> energy_db := fold (\<lambda>ch edb. edb[ch := channel_energy F K frame ch])
                               [0..<VOICE_CHANNELS K] (energy_db frame) \<rparr>)"
  by (simp add: detect_voice_activity_def vad_channel_loop_eq update_noise_floor_def Let_def
        frame_avg_energy_def active_channel_count_def vad_decision_def vad_count_def vad_floor_def)

lemma beamformed_keeps:
  "noise_floor (beamformed F K c) = noise_floor c"
  "vad_active (beamformed F K c) = vad_active c"
  "vad_frame_count (beamformed F K c) = vad_frame_count c"
  "stats (beamformed F K c) = stats c"
  by (simp_all add: beamformed_def apply_beamforming_eq)

lemma beamformed_stats:
  "beamform_delays (beamformed F K (c\<lparr> stats := s \<rparr>)) = beamform_delays (beamformed F K c)"
  "beamform_weights (beamformed F K (c\<lparr> stats := s \<rparr>)) = beamform_weights (beamformed F K c)"
  by (simp_all add: beamformed_def apply_beamforming_eq steer_delay_def)

lemma beamformed_eq:
  "beamformed F K c = c\<lparr> beamform_delays := beamform_delays (beamformed F K c),
                         beamform_weights := beamform_weights (beamformed F K c) \<rparr>"
  by (simp add: beamformed_def apply_beamforming_eq)

lemma task_analyse_frame_beamformed:
  "task_analyse_frame F K ctx0 frame0 =
     (case detect_voice_activity F K
             (beamformed F K (ctx0\<lparr> stats := (stats ctx0)\<lparr> frames_processed := frames_processed (stats ctx0) + 1 \<rparr> \<rparr>))
             frame0 of
        (vad_result, ctx3, frame1) \<Rightarrow>
          (if vad_result
           then ctx3\<lparr> stats := (stats ctx3)\<lparr> vad_activations := vad_activations (stats ctx3) + 1 \<rparr> \<rparr>
           else ctx3,
           frame1\<lparr> frame_vad_active := vad_result \<rparr>))"
  by (simp add: task_analyse_frame_def beamformed_def Let_def)

lemma vad_notions_beamformed:
  "vad_floor F K (beamformed F K (c\<lparr> stats := s \<rparr>)) f = vad_floor F K c f"
  "vad_count F K (beamformed F K (c\<lparr> stats := s \<rparr>)) f = vad_count F K c f"
  "vad_decision F K (beamformed F K (c\<lparr> stats := s \<rparr>)) f = vad_decision F K c f"
  by (simp_all add: vad_decision_def vad_count_def vad_floor_def beamformed_keeps)

lemma task_analyse_frame_eq:
  "task_analyse_frame F K ctx frame =
     (ctx\<lparr> beamform_delays := beamform_delays (beamformed F K ctx),
           beamform_weights := beamform_weights (beamformed F K ctx),
           noise_floor := vad_floor F K ctx frame,
           vad_frame_count := vad_count F K ctx frame,
           vad_active := vad_decision F K ctx frame,
           stats := (stats ctx)\<lparr> frames_processed := frames_processed (stats ctx) + 1,
                      avg_energy_db := frame_avg_energy F K frame,
                      noise_floor_db := (if vad_active ctx then noise_floor_db (stats ctx)
                                         else vad_floor F K ctx frame),
                      vad_activations := (if vad_decision F K ctx frame
                                          then vad_activations (stats ctx) + 1
                                          else vad_activations (stats ctx)) \<rparr> \<rparr>,
      frame\<lparr> energy_db := fold (\<lambda>ch edb. edb[ch := channel_energy F K frame ch])
                               [0..<VOICE_CHANNELS K] (energy_db frame),
             frame_vad_active := vad_decision F K ctx frame \<rparr>)"
proof -
  let ?c1 = "ctx\<lparr> stats := (stats ctx)\<lparr> frames_processed := frames_processed (stats ctx) + 1 \<rparr> \<rparr>"
  have b: "beamformed F K ?c1 = ?c1\<lparr> beamform_delays := beamform_delays (beamformed F K ctx),
                                       beamform_weights := beamform_weights (beamformed F K ctx) \<rparr>"
    by (subst beamformed_eq) (simp only: beamformed_stats)
  show ?thesis
    unfolding task_analyse_frame_beamformed detect_voice_activity_eq vad_notions_beamformed
    unfolding b
    by (cases "vad_decision F K ctx frame") simp_all
qed

lemma task_state_machine_keeps:
  "noise_floor (task_state_machine F K c f) = noise_floor c
   \<and> vad_active (task_state_machine F K c f) = vad_active c
   \<and> vad_frame_count (task_state_machine F K c f) = vad_frame_count c
   \<and> vad_activations (stats (task_state_machine F K c f)) = vad_activations (stats c)
   \<and> frames_processed (stats (task_state_machine F K c f)) = frames_processed (stats c)
   \<and> noise_floor_db (stats (task_state_machine F K c f)) = noise_floor_db (stats c)
   \<and> avg_energy_db (stats (task_state_machine F K c f)) = avg_energy_db (stats c)
   \<and> config (task_state_machine F K c f) = config c"
  by (simp add: task_state_machine_def process_wake_word_detection_def record_frame_def
        record_append_def voice_stop_recording_def Let_def split: voice_state.split)

lemma step_vad_fields:
  "noise_floor (fst (voice_processing_step F K ctx frame)) = vad_floor F K ctx frame"
  "vad_frame_count (fst (voice_processing_step F K ctx frame)) = vad_count F K ctx frame"
  "vad_active (fst (voice_processing_step F K ctx frame)) = vad_decision F K ctx frame"
  "frame_vad_active (snd (voice_processing_step F K ctx frame)) = vad_decision F K ctx frame"
  "avg_energy_db (stats (fst (voice_processing_step F K ctx frame))) = frame_avg_energy F K frame"
  "vad_activations (stats (fst (voice_processing_step F K ctx frame))) =
     (if vad_decision F K ctx frame then vad_activations (stats ctx) + 1 else vad_activations (stats ctx))"
  "noise_floor_db (stats (fst (voice_processing_step F K ctx frame))) =
     (if vad_active ctx then noise_floor_db (stats ctx) else vad_floor F K ctx frame)"
  by (simp_all add: voice_processing_step_def task_analyse_frame_eq task_state_machine_keeps)

lemma task_analyse_frame_keeps:
  "state (fst (task_analyse_frame F K c f)) = state c"
  "config (fst (task_analyse_frame F K c f)) = config c"
  "recording_buffer (fst (task_analyse_frame F K c f)) = recording_buffer c"
  "recording_size (fst (task_analyse_frame F K c f)) = recording_size c"
  "recording_capacity (fst (task_analyse_frame F K c f)) = recording_capacity c"
  "is_recording (fst (task_analyse_frame F K c f)) = is_recording c"
  "recording_start_time (fst (task_analyse_frame F K c f)) = recording_start_time c"
  "max_recording_duration (fst (task_analyse_frame F K c f)) = max_recording_duration c"
  "simulation_counter (fst (task_analyse_frame F K c f)) = simulation_counter c"
  "wake_callback_calls (fst (task_analyse_frame F K c f)) = wake_callback_calls c"
  "wake_detections (stats (fst (task_analyse_frame F K c f))) = wake_detections (stats c)"
  "frame_vad_active (snd (task_analyse_frame F K c f)) = vad_decision F K c f"
  "timestamp_ms (snd (task_analyse_frame F K c f)) = timestamp_ms f"
  "samples (snd (task_analyse_frame F K c f)) = samples f"
  by (simp_all add: task_analyse_frame_eq)

lemma step_split:
  "fst (voice_processing_step F K c f) =
     task_state_machine F K (fst (task_analyse_frame F K c f)) (snd (task_analyse_frame F K c f))"
  by (simp add: voice_processing_step_def split: prod.split)

subsection \<open>The program computes the formulas of the specification\<close>

text \<open>
  The energy that the detector computes for a channel from its local copy of the
  channel's samples is the energy of the specification, the average and the number of
  active channels likewise; the mixdown of the recording case is the saturating
  weighted sum; the bytes that the recording case copies are little-endian PCM. These
  equations hold for every \<open>F\<close>: they do not depend on how the operations round.
\<close>

lemma channel_energy_spec:
  assumes "0 < VOICE_FRAME_SIZE K"
  shows "channel_energy F K frame ch = spec_energy_db F K frame ch"
proof -
  let ?n = "VOICE_FRAME_SIZE K"
  let ?smp = "channel_samples K frame ch"
  let ?x = "\<lambda>i. f_div F (f_of_int F (sint (samples frame ! (i * VOICE_CHANNELS K + ch)))) 32768"
  have "foldl (\<lambda>s i. f_add F s (f_mul F (f_div F (f_of_int F (sint (?smp ! i))) 32768)
                                       (f_div F (f_of_int F (sint (?smp ! i))) 32768))) 0 [0..<?n]
        = foldl (\<lambda>s i. f_add F s (f_mul F (?x i) (?x i))) 0 [0..<?n]"
    by (rule foldl_cong) (simp_all add: channel_samples_def)
  then show ?thesis
    using assms
    by (simp add: channel_energy_def calculate_energy_db_def spec_energy_db_def spec_rms_def Let_def)
qed

lemma frame_avg_energy_spec:
  assumes "0 < VOICE_FRAME_SIZE K"
  shows "frame_avg_energy F K frame = spec_avg_energy F K frame"
proof -
  have "foldl (f_add F) 0 (map (channel_energy F K frame) [0..<VOICE_CHANNELS K])
        = foldl (\<lambda>total ch. f_add F total (channel_energy F K frame ch)) 0 [0..<VOICE_CHANNELS K]"
    by (simp add: foldl_map)
  also have "\<dots> = foldl (\<lambda>total ch. f_add F total (spec_energy_db F K frame ch)) 0 [0..<VOICE_CHANNELS K]"
    by (simp add: channel_energy_spec [OF assms])
  finally show ?thesis
    by (simp add: frame_avg_energy_def spec_avg_energy_def)
qed

lemma length_filter_upt: "length (filter P [0..<n]) = card {i. i < n \<and> P i}"
proof -
  have "card (set (filter P [0..<n])) = length (filter P [0..<n])"
    by (rule distinct_card) simp
  moreover have "set (filter P [0..<n]) = {i. i < n \<and> P i}"
    by auto
  ultimately show ?thesis by simp
qed

lemma active_channel_count_spec:
  assumes "0 < VOICE_FRAME_SIZE K"
  shows "active_channel_count F K nf frame = spec_active_channels F K nf frame"
  by (simp add: active_channel_count_def spec_active_channels_def length_filter_upt
        channel_energy_spec [OF assms])


lemma saturate_i16_eq: "word_of_int (float_to_int (min (max r (- 32768)) 32767)) = saturate_i16 r"
proof -
  consider (low) "r < - 32768" | (high) "32767 < r" | (neg) "- 32768 \<le> r" "r < 0" | (pos) "0 \<le> r" "r \<le> 32767"
    by linarith
  then show ?thesis
  proof cases
    case low
    then show ?thesis by (simp add: saturate_i16_def float_to_int_def)
  next
    case high
    then show ?thesis by (simp add: saturate_i16_def float_to_int_def)
  next
    case neg
    then show ?thesis by (simp add: saturate_i16_def float_to_int_def ceiling_def)
  next
    case pos
    then show ?thesis by (simp add: saturate_i16_def float_to_int_def)
  qed
qed

lemma mono_sample_spec:
  "mono_sample F K c f i = spec_mono_sample F K (beamform_weights c) (samples f) i"
  by (simp add: mono_sample_def spec_mono_sample_def saturate_i16_eq Let_def)

lemma mono_frame_spec:
  "mono_frame F K c f = spec_mono_mixdown F K (beamform_weights c, samples f)"
  by (simp add: mono_frame_def spec_mono_mixdown_def mono_sample_spec)

lemma word8_of_nat_mod: "(word_of_nat (n mod 256) :: 8 word) = word_of_nat n"
  by (simp add: word_of_nat_eq_iff take_bit_eq_mod)

lemma low_byte: "(ucast (w :: 16 word) :: 8 word) = word_of_nat (unat w mod 256)"
  by (simp only: word8_of_nat_mod) simp

lemma unat_high: "unat (drop_bit 8 (w :: 16 word)) = unat w div 256"
  by (simp add: unat_drop_bit_eq drop_bit_eq_div unat_div)

lemma high_byte: "(ucast (drop_bit 8 (w :: 16 word)) :: 8 word) = word_of_nat (unat w div 256)"
proof -
  have "(ucast (drop_bit 8 w) :: 8 word) = word_of_nat (unat (drop_bit 8 w))"
    by simp
  then show ?thesis
    by (simp only: unat_high)
qed

lemma int16_bytes_spec: "int16_bytes ws = spec_pcm_le ws"
  unfolding int16_bytes_def spec_pcm_le_def
  by (simp only: high_byte) (simp only: low_byte)

subsection \<open>Concrete evaluations\<close>

text \<open>
  The concrete contexts and frames are evaluated with the operations of \<open>exact_float\<close>.
  On the frames used, single precision gives the same energies for the loud frame
  (every step is exact: the mean of the squares is 1, its root 1, its logarithm 0), and
  the inequalities used below hold with margins far above its rounding error.
\<close>

lemma exact_float_ops:
  "f_add exact_float a b = a + b"
  "f_sub exact_float a b = a - b"
  "f_mul exact_float a b = a * b"
  "f_div exact_float a b = a / b"
  "f_sqrt exact_float a = sqrt a"
  "f_log10 exact_float a = log 10 a"
  "f_lit exact_float a = a"
  "f_of_int exact_float k = real_of_int k"
  by (simp_all add: exact_float_def)

lemma typical_fields:
  "VOICE_CHANNELS typical_consts = 4"
  "VOICE_FRAME_SIZE typical_consts = 480"
  "VOICE_SAMPLE_RATE typical_consts = 16000"
  "VAD_FRAME_THRESHOLD typical_consts = 3"
  "VAD_ENERGY_THRESHOLD typical_consts = -40"
  "MAX_WAKE_WORDS typical_consts = 4"
  by (simp_all add: typical_consts_def)

lemma upt4: "[0..<4] = [0, 1, 2, 3]"
  by (simp add: upt_rec)

lemma foldl_add_const:
  fixes a :: real
  shows "(\<And>i. i < n \<Longrightarrow> g i = v) \<Longrightarrow> foldl (\<lambda>s i. s + g i) a [0..<n] = a + real n * v"
  by (induction n arbitrary: a) (simp_all add: algebra_simps)

text \<open>The energy, without rounding, of a channel on which every sample has the value \<open>c\<close>.\<close>

lemma exact_energy_const:
  assumes same: "\<And>i. i < VOICE_FRAME_SIZE K \<Longrightarrow> samples frame ! (i * VOICE_CHANNELS K + ch) = c"
      and pos: "0 < VOICE_FRAME_SIZE K"
  shows "spec_energy_db exact_float K frame ch =
           20 * log 10 (max \<bar>real_of_int (sint c) / 32768\<bar> (1 / 1000000))"
proof -
  let ?n = "VOICE_FRAME_SIZE K"
  let ?v = "real_of_int (sint c) / 32768"
  let ?S = "foldl (\<lambda>s i. s + (real_of_int (sint (samples frame ! (i * VOICE_CHANNELS K + ch))) / 32768)
                            * (real_of_int (sint (samples frame ! (i * VOICE_CHANNELS K + ch))) / 32768)) 0 [0..<?n]"
  have S: "?S = 0 + real ?n * (?v * ?v)"
    by (rule foldl_add_const) (simp add: same)
  have "?S / real ?n = ?v * ?v"
    unfolding S using pos by simp
  then have R: "sqrt (?S / real ?n) = \<bar>?v\<bar>"
    by (simp only: real_sqrt_abs2)
  have "spec_energy_db exact_float K frame ch = 20 * log 10 (max (sqrt (?S / real ?n)) (1 / 1000000))"
    unfolding spec_energy_db_def spec_rms_def exact_float_ops by simp
  then show ?thesis
    by (simp only: R)
qed

lemma log10_micro: "log 10 (1 / 1000000) = - 6"
proof -
  have "log 10 (1 / 1000000) = - log 10 (10 ^ 6)"
    by (simp add: log_divide)
  also have "\<dots> = - 6"
    by (simp only: log_pow_cancel)
  finally show ?thesis .
qed

lemma loud_energy:
  assumes "ch < 4"
  shows "spec_energy_db exact_float typical_consts (loud_frame ts) ch = 0"
proof -
  have "spec_energy_db exact_float typical_consts (loud_frame ts) ch =
          20 * log 10 (max \<bar>real_of_int (sint (- 32768 :: 16 word)) / 32768\<bar> (1 / 1000000))"
    by (rule exact_energy_const) (use assms in \<open>simp_all add: typical_fields loud_frame_def\<close>)
  then show ?thesis by simp
qed

lemma quiet_energy:
  assumes "ch < 4"
  shows "spec_energy_db exact_float typical_consts (quiet_frame ts) ch = - 120"
proof -
  have "spec_energy_db exact_float typical_consts (quiet_frame ts) ch =
          20 * log 10 (max \<bar>real_of_int (sint (0 :: 16 word)) / 32768\<bar> (1 / 1000000))"
    by (rule exact_energy_const) (use assms in \<open>simp_all add: typical_fields quiet_frame_def\<close>)
  then show ?thesis by (simp add: log10_micro)
qed

lemma typical_avg:
  "spec_avg_energy exact_float typical_consts frame =
     (spec_energy_db exact_float typical_consts frame 0 + spec_energy_db exact_float typical_consts frame 1
       + spec_energy_db exact_float typical_consts frame 2 + spec_energy_db exact_float typical_consts frame 3) / 4"
  by (simp add: spec_avg_energy_def typical_fields upt4 exact_float_ops)

lemma typical_active:
  "spec_active_channels exact_float typical_consts nf frame =
     length (filter (\<lambda>ch. spec_energy_db exact_float typical_consts frame ch > nf + 6) [0, 1, 2, 3])"
  by (simp only: spec_active_channels_def typical_fields length_filter_upt [symmetric] upt4 exact_float_ops)

lemma loud_avg: "spec_avg_energy exact_float typical_consts (loud_frame ts) = 0"
  by (simp add: typical_avg loud_energy)

lemma quiet_avg: "spec_avg_energy exact_float typical_consts (quiet_frame ts) = - 120"
  by (simp add: typical_avg quiet_energy)

lemma loud_active:
  "spec_active_channels exact_float typical_consts nf (loud_frame ts) = (if nf + 6 < 0 then 4 else 0)"
  by (simp add: typical_active loud_energy)

lemma quiet_active:
  "spec_active_channels exact_float typical_consts nf (quiet_frame ts) = (if nf + 6 < - 120 then 4 else 0)"
  by (simp add: typical_active quiet_energy)

lemma typical_pos: "0 < VOICE_FRAME_SIZE typical_consts"
  by (simp add: typical_fields)

lemmas typical_spec =
  frame_avg_energy_spec [OF typical_pos] active_channel_count_spec [OF typical_pos]

lemmas frame_eval =
  voice_processing_step_def task_analyse_frame_eq vad_floor_def vad_count_def vad_decision_def
  typical_spec loud_avg loud_active quiet_avg quiet_active beamformed_def typical_fields
  exact_float_ops task_state_machine_def process_wake_word_detection_def

lemmas fresh_eval = fresh_ctx_def voice_init_ok_def plain_config_def zero_stats_def

lemma speech_ctx_eval:
  "vad_active speech_ctx"
  "vad_frame_count speech_ctx = 3"
  "noise_floor speech_ctx = - 6859 / 200"
  "state speech_ctx = VOICE_STATE_IDLE"
  "vad_activations (stats speech_ctx) = 1"
  by (simp_all add: speech_ctx_def frame_eval fresh_eval Let_def)

lemma nth_concat_replicate:
  "i < n \<Longrightarrow> j < length xs \<Longrightarrow> concat (replicate n xs) ! (i * length xs + j) = xs ! j"
proof (induction n arbitrary: i)
  case 0
  then show ?case by simp
next
  case (Suc n)
  show ?case
  proof (cases i)
    case 0
    then show ?thesis using Suc.prems by (simp add: nth_append)
  next
    case (Suc k)
    then have "k < n" using Suc.prems by simp
    then show ?thesis
      using Suc.IH [of k] Suc.prems \<open>i = Suc k\<close> by (simp add: nth_append)
  qed
qed

lemma nth_concat_replicate4:
  assumes "i < n" and "j < 4"
  shows "concat (replicate n [a, b, c, d]) ! (i * 4 + j) = [a, b, c, d] ! j"
proof -
  have l: "length [a, b, c, d] = 4"
    by simp
  have "j < length [a, b, c, d]"
    using assms(2) by simp
  from nth_concat_replicate [OF assms(1) this] show ?thesis
    unfolding l .
qed

subsection \<open>The VAD decision\<close>

text \<open>
  The context \<open>warm_ctx\<close>: after nine rounds of three loud frames and a frame of silence
  the detector is off, the counter is 0 and the noise floor lies just below -10 dBFS.
\<close>

lemma warm_ctx_eval:
  "vad_active warm_ctx = False"
  "vad_frame_count warm_ctx = 0"
  "noise_floor warm_ctx < - 10 \<and> - 1002 / 100 < noise_floor warm_ctx"
  by (simp_all add: warm_ctx_def warmup_round_def frame_eval fresh_eval Let_def)

text \<open>
  The frame \<open>uneven_frame\<close> on the fresh context: three channels at -33.4 dBFS, between
  6 dB above the initial floor of -40 dBFS and 6 dB above the floor after the update,
  and one channel at 0 dBFS.
\<close>

lemma uneven_sample:
  "i < 480 \<Longrightarrow> ch < 4 \<Longrightarrow>
     samples (uneven_frame ts) ! (i * 4 + ch) = [700, 700, 700, - 32768] ! ch"
  by (simp only: uneven_frame_def voice_frame.simps nth_concat_replicate4)

lemma uneven_energy_low:
  assumes "ch < 3"
  shows "spec_energy_db exact_float typical_consts (uneven_frame ts) ch = 20 * log 10 (700 / 32768)"
proof -
  have c: "ch = 0 \<or> ch = 1 \<or> ch = 2"
    using assms by auto
  have "spec_energy_db exact_float typical_consts (uneven_frame ts) ch =
          20 * log 10 (max \<bar>real_of_int (sint (700 :: 16 word)) / 32768\<bar> (1 / 1000000))"
  proof (rule exact_energy_const)
    fix i assume "i < VOICE_FRAME_SIZE typical_consts"
    then have "i < 480" by (simp add: typical_fields)
    then show "samples (uneven_frame ts) ! (i * VOICE_CHANNELS typical_consts + ch) = 700"
      using c uneven_sample [of i ch ts] by (auto simp add: typical_fields)
  qed (simp add: typical_fields)
  then show ?thesis by simp
qed

lemma uneven_energy_loud:
  "spec_energy_db exact_float typical_consts (uneven_frame ts) 3 = 0"
proof -
  have "spec_energy_db exact_float typical_consts (uneven_frame ts) 3 =
          20 * log 10 (max \<bar>real_of_int (sint (- 32768 :: 16 word)) / 32768\<bar> (1 / 1000000))"
  proof (rule exact_energy_const)
    fix i assume "i < VOICE_FRAME_SIZE typical_consts"
    then have "i < 480" by (simp add: typical_fields)
    then show "samples (uneven_frame ts) ! (i * VOICE_CHANNELS typical_consts + 3) = - 32768"
      using uneven_sample [of i 3 ts] by (simp add: typical_fields)
  qed (simp add: typical_fields)
  then show ?thesis by simp
qed

lemma uneven_energy_bounds:
  "- 34 < 20 * log 10 (700 / 32768 :: real)"
  "20 * log 10 (700 / 32768 :: real) < - 100 / 3"
proof -
  let ?x = "700 / 32768 :: real"
  have p17: "log 10 (1 / 10 ^ 17 :: real) = - 17"
  proof -
    have "log 10 (1 / 10 ^ 17 :: real) = - log 10 (10 ^ 17)"
      by (simp add: log_divide)
    also have "\<dots> = - 17"
      by (simp only: log_pow_cancel)
    finally show ?thesis .
  qed
  have p5: "log 10 (1 / 10 ^ 5 :: real) = - 5"
  proof -
    have "log 10 (1 / 10 ^ 5 :: real) = - log 10 (10 ^ 5)"
      by (simp add: log_divide)
    also have "\<dots> = - 5"
      by (simp only: log_pow_cancel)
    finally show ?thesis .
  qed
  have n10: "log 10 (?x ^ 10) = 10 * log 10 ?x"
    using log_nat_power [of ?x 10 10] by simp
  have n3: "log 10 (?x ^ 3) = 3 * log 10 ?x"
    using log_nat_power [of ?x 10 3] by simp
  have "log 10 (1 / 10 ^ 17) < log 10 (?x ^ 10)"
    by (subst log_less_cancel_iff) (simp_all add: power_divide)
  then have "- 17 < 10 * log 10 ?x"
    unfolding p17 n10 .
  then show "- 34 < 20 * log 10 ?x"
    by simp
  have "log 10 (?x ^ 3) < log 10 (1 / 10 ^ 5)"
    by (subst log_less_cancel_iff) (simp_all add: power_divide)
  then have "3 * log 10 ?x < - 5"
    unfolding p5 n3 .
  then show "20 * log 10 ?x < - 100 / 3"
    by simp
qed

lemma fresh_ctx_eval:
  "vad_active fresh_ctx = False"
  "vad_frame_count fresh_ctx = 0"
  "noise_floor fresh_ctx = - 40"
  by (simp_all add: fresh_eval typical_fields)

lemma uneven_decision:
  "spec_avg_energy exact_float typical_consts (uneven_frame ts) = 15 * log 10 (700 / 32768)"
  "noise_floor (fst (voice_processing_step exact_float typical_consts fresh_ctx (uneven_frame ts)))
     = - 38 + 3 / 4 * log 10 (700 / 32768)"
  "vad_frame_count (fst (voice_processing_step exact_float typical_consts fresh_ctx (uneven_frame ts))) = 1"
proof -
  let ?e = "20 * log 10 (700 / 32768 :: real)"
  show avg: "spec_avg_energy exact_float typical_consts (uneven_frame ts) = 15 * log 10 (700 / 32768)"
    by (simp add: typical_avg uneven_energy_low uneven_energy_loud)
  show fl: "noise_floor (fst (voice_processing_step exact_float typical_consts fresh_ctx (uneven_frame ts)))
              = - 38 + 3 / 4 * log 10 (700 / 32768)"
    by (simp add: step_vad_fields vad_floor_def typical_spec fresh_ctx_eval exact_float_ops avg)
  have "4 \<le> length (filter (\<lambda>ch. spec_energy_db exact_float typical_consts (uneven_frame ts) ch > - 40 + 6)
                       [0, 1, 2, 3])"
    using uneven_energy_bounds(1) by (simp add: uneven_energy_low uneven_energy_loud)
  then have a: "2 \<le> spec_active_channels exact_float typical_consts (- 40) (uneven_frame ts)"
    by (simp only: typical_active)
  have e: "15 * log 10 (700 / 32768 :: real) > - 38 + 3 / 4 * log 10 (700 / 32768) + 10"
    using uneven_energy_bounds(1) by simp
  show "vad_frame_count (fst (voice_processing_step exact_float typical_consts fresh_ctx (uneven_frame ts))) = 1"
    using a e
    by (simp add: step_vad_fields vad_count_def vad_floor_def typical_spec fresh_ctx_eval exact_float_ops
          avg typical_fields)
qed

lemma uneven_active_after:
  "spec_active_channels exact_float typical_consts (- 38 + 3 / 4 * log 10 (700 / 32768)) (uneven_frame ts) = 1"
proof -
  have lo: "\<not> 20 * log 10 (700 / 32768 :: real) > - 38 + 3 / 4 * log 10 (700 / 32768) + 6"
    using uneven_energy_bounds(2) by simp
  have hi: "(0 :: real) > - 38 + 3 / 4 * log 10 (700 / 32768) + 6"
    using uneven_energy_bounds(2) by simp
  show ?thesis
    using lo hi by (simp add: typical_active uneven_energy_low uneven_energy_loud)
qed

text \<open>
  C1, as stated, fails: the claim compares the channel energies and the average energy
  against one noise floor, and the detector updates the noise floor between the two
  tests. Whichever of the two floors is taken, the claim is wrong on some frame.
  \<^item> With the floor that the frame finds: on \<open>warm_ctx\<close> a loud frame has an average
    energy of more than 10 dB above that floor, and all four of its channels are more
    than 6 dB above it, which is at least \<open>CHANNELS/2 = 2\<close>; still the counter is not
    incremented: it is 0 after the frame. The average energy is not 10 dB above the
    updated floor.
  \<^item> With the floor that the frame leaves: on the fresh context the uneven frame has an
    average energy of more than 10 dB above that floor, but only one channel that is
    more than 6 dB above it, fewer than \<open>CHANNELS/2\<close>; still the counter is not reset:
    it is incremented to 1. All four channels are 6 dB above the floor as found.
\<close>

theorem vad_single_floor_counterexample:
  "(vad_frame_count warm_ctx = 0
    \<and> spec_avg_energy exact_float typical_consts (loud_frame 1080)
          > f_add exact_float (noise_floor warm_ctx) 10
    \<and> spec_active_channels exact_float typical_consts (noise_floor warm_ctx) (loud_frame 1080) = 4
    \<and> VOICE_CHANNELS typical_consts div 2 = 2
    \<and> vad_frame_count (fst (voice_processing_step exact_float typical_consts warm_ctx (loud_frame 1080))) = 0)
   \<and> (vad_frame_count fresh_ctx = 0
    \<and> spec_avg_energy exact_float typical_consts (uneven_frame 0)
          > f_add exact_float
              (noise_floor (fst (voice_processing_step exact_float typical_consts fresh_ctx (uneven_frame 0)))) 10
    \<and> spec_active_channels exact_float typical_consts
          (noise_floor (fst (voice_processing_step exact_float typical_consts fresh_ctx (uneven_frame 0))))
          (uneven_frame 0) = 1
    \<and> vad_frame_count (fst (voice_processing_step exact_float typical_consts fresh_ctx (uneven_frame 0))) = 1)"
proof -
  have a: "vad_frame_count warm_ctx = 0
    \<and> spec_avg_energy exact_float typical_consts (loud_frame 1080)
          > f_add exact_float (noise_floor warm_ctx) 10
    \<and> spec_active_channels exact_float typical_consts (noise_floor warm_ctx) (loud_frame 1080) = 4
    \<and> VOICE_CHANNELS typical_consts div 2 = 2
    \<and> vad_frame_count (fst (voice_processing_step exact_float typical_consts warm_ctx (loud_frame 1080))) = 0"
    using warm_ctx_eval
    by (simp add: step_vad_fields vad_count_def vad_floor_def typical_spec loud_avg loud_active
          typical_fields exact_float_ops)
  have e: "15 * log 10 (700 / 32768 :: real) > - 38 + 3 / 4 * log 10 (700 / 32768) + 10"
    using uneven_energy_bounds(1) by simp
  have b: "vad_frame_count fresh_ctx = 0
    \<and> spec_avg_energy exact_float typical_consts (uneven_frame 0)
          > f_add exact_float
              (noise_floor (fst (voice_processing_step exact_float typical_consts fresh_ctx (uneven_frame 0)))) 10
    \<and> spec_active_channels exact_float typical_consts
          (noise_floor (fst (voice_processing_step exact_float typical_consts fresh_ctx (uneven_frame 0))))
          (uneven_frame 0) = 1
    \<and> vad_frame_count (fst (voice_processing_step exact_float typical_consts fresh_ctx (uneven_frame 0))) = 1"
    unfolding uneven_decision uneven_active_after
    using e by (simp add: fresh_ctx_eval exact_float_ops)
  from a b show ?thesis ..
qed

text \<open>
  C1, amended. For every frame handled by the processing task: the energy in dBFS of
  each channel is compared against the noise floor that the frame finds plus 6 dB to
  count the active channels; \<open>vad_frame_count\<close> is incremented (in \<^verbatim>\<open>uint32_t\<close>) when
  both the average energy exceeds the noise floor that the frame leaves behind, that is
  after the floor's update on this frame, plus 10 dB, and the number of active channels
  is at least \<open>CHANNELS/2\<close>, and is reset to 0 otherwise; \<open>vad_active\<close>, of the context
  and of the frame, is true exactly when the resulting count is at least
  \<open>VAD_FRAME_THRESHOLD\<close>. The energies are those of the specification's formulas
  (\<open>spec_energy_db\<close>, \<open>spec_avg_energy\<close>), and the average is what the statistics record.
\<close>

theorem vad_decision_per_frame:
  assumes "0 < VOICE_FRAME_SIZE K"
  shows "let ctx' = fst (voice_processing_step F K ctx frame);
             frame' = snd (voice_processing_step F K ctx frame);
             avg_energy = spec_avg_energy F K frame;
             active_channels = spec_active_channels F K (noise_floor ctx) frame;
             count = (if avg_energy > f_add F (noise_floor ctx') 10
                         \<and> active_channels \<ge> VOICE_CHANNELS K div 2
                      then vad_frame_count ctx + 1 else 0)
         in vad_frame_count ctx' = count
            \<and> vad_active ctx' = (unat count \<ge> VAD_FRAME_THRESHOLD K)
            \<and> frame_vad_active frame' = (unat count \<ge> VAD_FRAME_THRESHOLD K)
            \<and> avg_energy_db (stats ctx') = avg_energy"
  by (simp add: Let_def step_vad_fields vad_decision_def vad_count_def
        frame_avg_energy_spec [OF assms] active_channel_count_spec [OF assms])

theorem vad_decision_per_frame_witness:
  "0 < VOICE_FRAME_SIZE typical_consts
   \<and> vad_frame_count warm_ctx = 0
   \<and> vad_frame_count (fst (voice_processing_step exact_float typical_consts warm_ctx (loud_frame 1080))) = 0
   \<and> vad_frame_count speech_ctx = 3
   \<and> vad_frame_count (fst (voice_processing_step exact_float typical_consts speech_ctx (loud_frame 90))) = 4
   \<and> vad_active (fst (voice_processing_step exact_float typical_consts speech_ctx (loud_frame 90)))
   \<and> frame_vad_active (snd (voice_processing_step exact_float typical_consts speech_ctx (loud_frame 90)))"
proof -
  have p: "0 < VOICE_FRAME_SIZE typical_consts"
    by (rule typical_pos)
  have w: "noise_floor (fst (voice_processing_step exact_float typical_consts warm_ctx (loud_frame 1080)))
             = 95 / 100 * noise_floor warm_ctx"
    using warm_ctx_eval by (simp add: step_vad_fields vad_floor_def typical_spec loud_avg exact_float_ops)
  have s: "noise_floor (fst (voice_processing_step exact_float typical_consts speech_ctx (loud_frame 90)))
             = - 6859 / 200"
    using speech_ctx_eval by (simp add: step_vad_fields vad_floor_def)
  show ?thesis
    using p warm_ctx_eval speech_ctx_eval
      vad_decision_per_frame [OF p, of exact_float warm_ctx "loud_frame 1080"]
      vad_decision_per_frame [OF p, of exact_float speech_ctx "loud_frame 90"]
    by (simp add: Let_def w s loud_avg loud_active typical_fields exact_float_ops)
qed

subsection \<open>The noise floor\<close>





subsection \<open>The activation counter\<close>
text \<open>
  C7, as stated, fails: the counter is incremented on every frame whose decision is
  true, not only on a rising edge. The fourth loud frame finds \<open>vad_active\<close> true and
  leaves it true, and the counter goes from 1 to 2.
\<close>

theorem vad_activations_counterexample:
  "vad_active speech_ctx
   \<and> vad_active (fst (voice_processing_step exact_float typical_consts speech_ctx (loud_frame 90)))
   \<and> vad_activations (stats speech_ctx) = 1
   \<and> vad_activations (stats (fst (voice_processing_step exact_float typical_consts speech_ctx (loud_frame 90)))) = 2"
  by (simp add: speech_ctx_def frame_eval fresh_eval Let_def)

text \<open>
  C7, amended. \<open>stats.vad_activations\<close> is incremented by the processing of a frame
  exactly when the frame's VAD decision is true, that is when \<open>vad_active\<close> holds after
  the frame, whether or not it held before; no other frame changes it.
\<close>

theorem vad_activations_counts_active_frames:
  "vad_activations (stats (fst (voice_processing_step F K ctx frame))) =
     (if vad_active (fst (voice_processing_step F K ctx frame))
      then vad_activations (stats ctx) + 1 else vad_activations (stats ctx))"
  by (simp add: step_vad_fields)

subsection \<open>The recording\<close>

text \<open>
  What the recording case does to the recording, and the recording after a sequence of
  frames: its first \<open>recording_size\<close> bytes are the PCM bytes of the mixdowns of the
  frames appended so far.
\<close>

lemma length_int16_bytes: "length (int16_bytes ws) = 2 * length ws"
  by (induction ws) (simp_all add: int16_bytes_def)

lemma int16_bytes_append: "int16_bytes (xs @ ys) = int16_bytes xs @ int16_bytes ys"
  by (simp add: int16_bytes_def)

lemma int16_bytes_Nil: "int16_bytes [] = []"
  by (simp add: int16_bytes_def)

lemma length_spec_mono_mixdown: "length (spec_mono_mixdown F K p) = VOICE_FRAME_SIZE K"
  by (simp add: spec_mono_mixdown_def)

lemma length_session_pcm:
  "length (concat (map (spec_mono_mixdown F K) ps)) = VOICE_FRAME_SIZE K * length ps"
  by (induction ps) (simp_all add: length_spec_mono_mixdown)

lemma length_memcpy_at:
  "off + length src \<le> length dst \<Longrightarrow> length (memcpy_at dst off src) = length dst"
  by (simp add: memcpy_at_def)

lemma take_memcpy_at:
  "off \<le> length dst \<Longrightarrow> take (off + length src) (memcpy_at dst off src) = take off dst @ src"
  by (simp add: memcpy_at_def)

lemma take_memcpy:
  "n \<le> length src \<Longrightarrow> take n (memcpy dst src n) = take n src"
  by (simp add: memcpy_def)

text \<open>What the recording case does to the recording, for a buffer as large as the capacity.\<close>

lemma record_frame_effect:
  assumes len: "length (recording_buffer c) = recording_capacity c"
  shows "recording_capacity (record_frame F K c f) = recording_capacity c"
    and "length (recording_buffer (record_frame F K c f)) = recording_capacity c"
    and "state (record_frame F K c f) = state c \<or> state (record_frame F K c f) = VOICE_STATE_PROCESSING"
    and "recording_size (record_frame F K c f) =
           recording_size c + (if appends K c f then 2 * VOICE_FRAME_SIZE K else 0)"
    and "take (recording_size (record_frame F K c f)) (recording_buffer (record_frame F K c f)) =
           take (recording_size c) (recording_buffer c)
             @ (if appends K c f
                then int16_bytes (spec_mono_mixdown F K (beamform_weights c, samples f)) else [])"
proof -
  let ?a = "record_append F K c f"
  let ?m = "spec_mono_mixdown F K (beamform_weights c, samples f)"
  have stop: "record_frame F K c f = ?a
      \<or> record_frame F K c f = ?a\<lparr> is_recording := False, state := VOICE_STATE_PROCESSING \<rparr>"
    by (simp add: record_frame_def voice_stop_recording_def Let_def)
  have a: "recording_capacity ?a = recording_capacity c"
          "state ?a = state c"
          "recording_size ?a = recording_size c + (if appends K c f then 2 * VOICE_FRAME_SIZE K else 0)"
    by (simp_all add: record_append_def appends_def Let_def)
  have b: "length (recording_buffer ?a) = recording_capacity c"
    using len
    by (simp add: record_append_def Let_def length_memcpy_at length_int16_bytes mono_frame_spec
          length_spec_mono_mixdown)
  have t: "take (recording_size ?a) (recording_buffer ?a) =
           take (recording_size c) (recording_buffer c) @ (if appends K c f then int16_bytes ?m else [])"
  proof (cases "appends K c f")
    case True
    then have le: "recording_size c \<le> length (recording_buffer c)"
      using len by (simp add: appends_def)
    have l2: "2 * VOICE_FRAME_SIZE K = length (int16_bytes ?m)"
      by (simp add: length_int16_bytes length_spec_mono_mixdown)
    show ?thesis
      using True take_memcpy_at [OF le, of "int16_bytes ?m"]
      by (simp add: record_append_def appends_def Let_def mono_frame_spec l2 [symmetric] mult.commute)
  next
    case False
    then show ?thesis
      by (auto simp add: record_append_def appends_def Let_def)
  qed
  from stop a show "recording_capacity (record_frame F K c f) = recording_capacity c" by auto
  from stop b show "length (recording_buffer (record_frame F K c f)) = recording_capacity c" by auto
  from stop a show "state (record_frame F K c f) = state c \<or> state (record_frame F K c f) = VOICE_STATE_PROCESSING" by auto
  from stop a show "recording_size (record_frame F K c f) =
           recording_size c + (if appends K c f then 2 * VOICE_FRAME_SIZE K else 0)" by auto
  from stop t show "take (recording_size (record_frame F K c f)) (recording_buffer (record_frame F K c f)) =
           take (recording_size c) (recording_buffer c) @ (if appends K c f then int16_bytes ?m else [])" by auto
qed

lemma appended_input_eq:
  "appended_input F K c f =
     (let c4 = fst (task_analyse_frame F K c f); f2 = snd (task_analyse_frame F K c f)
      in if frame_vad_active f2
            \<and> ((state c = VOICE_STATE_RECORDING \<and> is_recording c
                 \<and> recording_size c + 2 * VOICE_FRAME_SIZE K \<le> recording_capacity c)
               \<or> (state c = VOICE_STATE_WAKE_DETECTED \<and> 2 * VOICE_FRAME_SIZE K \<le> recording_capacity c))
         then Some (beamform_weights c4, samples f) else None)"
  by (auto simp add: appended_input_def Let_def case_prod_beta task_analyse_frame_keeps)

lemma session_step:
  fixes F :: float_ops and K :: voice_consts and c :: voice_context and f :: voice_frame
  assumes inv: "in_session c"
  defines "c' \<equiv> fst (voice_processing_step F K c f)"
  defines "A \<equiv> (case appended_input F K c f of Some p \<Rightarrow> [p] | None \<Rightarrow> [])"
  shows "in_session c'"
    and "recording_size c' = recording_size c + 2 * VOICE_FRAME_SIZE K * length A"
    and "take (recording_size c') (recording_buffer c') =
           take (recording_size c) (recording_buffer c)
             @ int16_bytes (concat (map (spec_mono_mixdown F K) A))"
proof -
  let ?c4 = "fst (task_analyse_frame F K c f)"
  let ?f2 = "snd (task_analyse_frame F K c f)"
  have len: "length (recording_buffer c) = recording_capacity c"
    using inv by (simp add: in_session_def)
  consider (proc) "state c = VOICE_STATE_PROCESSING"
    | (rec) "state c = VOICE_STATE_RECORDING"
    | (wake) "state c = VOICE_STATE_WAKE_DETECTED" "recording_size c = 0"
    using inv by (auto simp add: in_session_def)
  then have "in_session c'
      \<and> recording_size c' = recording_size c + 2 * VOICE_FRAME_SIZE K * length A
      \<and> take (recording_size c') (recording_buffer c') =
           take (recording_size c) (recording_buffer c)
             @ int16_bytes (concat (map (spec_mono_mixdown F K) A))"
  proof cases
    case proc
    then have "c' = ?c4"
      by (simp add: c'_def step_split task_state_machine_def task_analyse_frame_keeps)
    moreover have "A = []"
      using proc by (simp add: A_def appended_input_eq Let_def)
    ultimately show ?thesis
      using inv proc by (simp add: in_session_def task_analyse_frame_keeps int16_bytes_Nil)
  next
    case rec
    then have c': "c' = record_frame F K ?c4 ?f2"
      by (simp add: c'_def step_split task_state_machine_def task_analyse_frame_keeps)
    have len4: "length (recording_buffer ?c4) = recording_capacity ?c4"
      using len by (simp add: task_analyse_frame_keeps)
    have A: "A = (if appends K ?c4 ?f2 then [(beamform_weights ?c4, samples ?f2)] else [])"
      using rec by (simp add: A_def appended_input_eq Let_def appends_def task_analyse_frame_keeps)
    show ?thesis
      unfolding c'
      using record_frame_effect [OF len4, of F K ?f2] rec
      by (auto simp add: A in_session_def task_analyse_frame_keeps int16_bytes_Nil)
  next
    case wake
    let ?c5 = "?c4\<lparr> state := VOICE_STATE_RECORDING, recording_start_time := timestamp_ms ?f2,
                      recording_size := 0, is_recording := True \<rparr>"
    have c': "c' = record_frame F K ?c5 ?f2"
      using wake by (simp add: c'_def step_split task_state_machine_def task_analyse_frame_keeps)
    have len5: "length (recording_buffer ?c5) = recording_capacity ?c5"
      using len by (simp add: task_analyse_frame_keeps)
    have A: "A = (if appends K ?c5 ?f2 then [(beamform_weights ?c4, samples ?f2)] else [])"
      using wake by (simp add: A_def appended_input_eq Let_def appends_def task_analyse_frame_keeps)
    show ?thesis
      unfolding c'
      using record_frame_effect [OF len5, of F K ?f2] wake
      by (auto simp add: A in_session_def task_analyse_frame_keeps int16_bytes_Nil)
  qed
  then show "in_session c'"
    and "recording_size c' = recording_size c + 2 * VOICE_FRAME_SIZE K * length A"
    and "take (recording_size c') (recording_buffer c') =
           take (recording_size c) (recording_buffer c)
             @ int16_bytes (concat (map (spec_mono_mixdown F K) A))"
    by blast+
qed

lemma session_run:
  "in_session c \<Longrightarrow>
     recording_size (voice_processing_run F K c fs) =
       recording_size c + 2 * VOICE_FRAME_SIZE K * length (session_inputs F K c fs)
     \<and> take (recording_size (voice_processing_run F K c fs)) (recording_buffer (voice_processing_run F K c fs)) =
         take (recording_size c) (recording_buffer c)
           @ int16_bytes (concat (map (spec_mono_mixdown F K) (session_inputs F K c fs)))"
proof (induction fs arbitrary: c)
  case Nil
  then show ?case by (simp add: int16_bytes_Nil)
next
  case (Cons f fs)
  let ?c' = "fst (voice_processing_step F K c f)"
  let ?A = "(case appended_input F K c f of Some p \<Rightarrow> [p] | None \<Rightarrow> [])"
  let ?r = "voice_processing_run F K ?c' fs"
  let ?B = "session_inputs F K ?c' fs"
  note s = session_step [where F = F and K = K and f = f, OF Cons.prems]
  note ih = Cons.IH [OF s(1)]
  have run: "voice_processing_run F K c (f # fs) = ?r"
    by simp
  have inputs: "session_inputs F K c (f # fs) = ?A @ ?B"
    by simp
  have "recording_size ?r = recording_size c + 2 * VOICE_FRAME_SIZE K * length (?A @ ?B)"
    using ih s(2) by (simp add: algebra_simps)
  moreover have "take (recording_size ?r) (recording_buffer ?r) =
      take (recording_size c) (recording_buffer c)
        @ int16_bytes (concat (map (spec_mono_mixdown F K) (?A @ ?B)))"
    unfolding ih [THEN conjunct2] s(3)
    by (simp add: int16_bytes_append)
  ultimately show ?case
    unfolding run inputs by blast
qed

text \<open>
  C5. Take a recording session: a context in RECORDING, or in WAKE_DETECTED, with an
  empty recording and its buffer as allocated, and let the task process any sequence
  of frames. Let \<open>N\<close> be the number of frames that are appended (\<open>session_inputs\<close>: each
  VAD-active and fitting into the capacity). Then \<^verbatim>\<open>voice_get_recording\<close> with a buffer
  of at least \<open>N * VOICE_FRAME_SIZE * 2\<close> bytes succeeds, reports exactly that many
  bytes, and has written mono PCM, 16 bit little-endian: the mixdowns of the appended
  frames in order, where the mixdown of a frame (\<open>spec_mono_mixdown\<close>) has
  \<open>VOICE_FRAME_SIZE\<close> samples, each the sum over the channels of the frame's samples
  times the beamforming weights, saturated to the range of \<^verbatim>\<open>int16_t\<close>.
\<close>

theorem recording_round_trip:
  assumes start: "state ctx = VOICE_STATE_RECORDING \<or> state ctx = VOICE_STATE_WAKE_DETECTED"
      and empty: "recording_size ctx = 0"
      and alloc: "length (recording_buffer ctx) = recording_capacity ctx"
      and count: "N = length (session_inputs F K ctx frames)"
      and large: "N * VOICE_FRAME_SIZE K * 2 \<le> buffer_size"
  shows "\<exists>ctx' buf'.
           voice_get_recording (Some (voice_processing_run F K ctx frames)) (Some buf) buffer_size (Some bw)
             = (VOICE_OK, Some ctx', Some buf', Some (N * VOICE_FRAME_SIZE K * 2))
           \<and> take (N * VOICE_FRAME_SIZE K * 2) buf' =
               spec_pcm_le (concat (map (spec_mono_mixdown F K) (session_inputs F K ctx frames)))"
proof -
  let ?r = "voice_processing_run F K ctx frames"
  let ?pcm = "concat (map (spec_mono_mixdown F K) (session_inputs F K ctx frames))"
  let ?bytes = "int16_bytes ?pcm"
  have inv: "in_session ctx"
    using start empty alloc by (auto simp add: in_session_def)
  note run = session_run [OF inv, of F K frames]
  have size: "recording_size ?r = N * VOICE_FRAME_SIZE K * 2"
    using run empty count by (simp add: algebra_simps)
  have content: "take (recording_size ?r) (recording_buffer ?r) = ?bytes"
    unfolding run [THEN conjunct2] empty by simp
  have "length ?pcm = VOICE_FRAME_SIZE K * N"
    unfolding count by (rule length_session_pcm)
  then have len: "length ?bytes = recording_size ?r"
    using size by (simp add: length_int16_bytes)
  show ?thesis
  proof (cases "recording_size ?r = 0")
    case True
    then have "?bytes = []"
      using len by simp
    then show ?thesis
      using True size by (simp add: voice_get_recording_def int16_bytes_spec [symmetric])
  next
    case False
    have copy: "(if recording_size ?r < buffer_size then recording_size ?r else buffer_size) = recording_size ?r"
      using size large by simp
    have "length (take (recording_size ?r) (recording_buffer ?r)) = recording_size ?r"
      using len by (simp only: content)
    then have "recording_size ?r \<le> length (recording_buffer ?r)"
      by simp
    then have "take (recording_size ?r) (memcpy buf (recording_buffer ?r) (recording_size ?r)) = ?bytes"
      by (simp only: take_memcpy content)
    then show ?thesis
      using False copy size by (simp add: voice_get_recording_def Let_def int16_bytes_spec [symmetric])
  qed
qed

lemma mixed_sample:
  "i < 480 \<Longrightarrow> ch < 4 \<Longrightarrow>
     samples (mixed_frame ts) ! (i * 4 + ch) = [- 32768, - 32768, - 32768, 5] ! ch"
  by (simp only: mixed_frame_def voice_frame.simps nth_concat_replicate4)

lemma mixed_sample_loud:
  assumes "i < 480" and "ch < 3"
  shows "samples (mixed_frame ts) ! (i * 4 + ch) = - 32768"
proof -
  have "ch = 0 \<or> ch = 1 \<or> ch = 2"
    using assms(2) by auto
  then have "[- 32768, - 32768, - 32768, 5 :: 16 word] ! ch = - 32768"
    by auto
  moreover have "ch < 4"
    using assms(2) by simp
  ultimately show ?thesis
    using mixed_sample [OF assms(1), of ch ts] by simp
qed

lemma mixed_energy_loud:
  assumes "ch < 3"
  shows "spec_energy_db exact_float typical_consts (mixed_frame ts) ch = 0"
proof -
  have "spec_energy_db exact_float typical_consts (mixed_frame ts) ch =
          20 * log 10 (max \<bar>real_of_int (sint (- 32768 :: 16 word)) / 32768\<bar> (1 / 1000000))"
  proof (rule exact_energy_const)
    fix i assume "i < VOICE_FRAME_SIZE typical_consts"
    then have "i < 480" by (simp add: typical_fields)
    then show "samples (mixed_frame ts) ! (i * VOICE_CHANNELS typical_consts + ch) = - 32768"
      using assms by (simp add: typical_fields mixed_sample_loud)
  qed (simp add: typical_fields)
  then show ?thesis by simp
qed

lemma mixed_energy_low:
  "spec_energy_db exact_float typical_consts (mixed_frame ts) 3 = 20 * log 10 (5 / 32768)"
proof -
  have "spec_energy_db exact_float typical_consts (mixed_frame ts) 3 =
          20 * log 10 (max \<bar>real_of_int (sint (5 :: 16 word)) / 32768\<bar> (1 / 1000000))"
  proof (rule exact_energy_const)
    fix i assume "i < VOICE_FRAME_SIZE typical_consts"
    then have "i < 480" by (simp add: typical_fields)
    then show "samples (mixed_frame ts) ! (i * VOICE_CHANNELS typical_consts + 3) = 5"
      using mixed_sample [of i 3 ts] by (simp add: typical_fields)
  qed (simp add: typical_fields)
  then show ?thesis by simp
qed

lemma low_energy_bound: "- 80 < 20 * log 10 (5 / 32768 :: real)"
proof -
  have "log 10 (1 / 10000) = - log 10 (10 ^ 4)"
    by (simp add: log_divide)
  also have "\<dots> = - 4"
    by (simp only: log_pow_cancel)
  finally have a: "log 10 (1 / 10000) = - 4" .
  have "log 10 (1 / 10000) < log 10 (5 / 32768 :: real)"
    by (subst log_less_cancel_iff) simp_all
  then show ?thesis
    using a by simp
qed

text \<open>The decision on the mixed frame while the detector is active with the floor of \<open>speech_ctx\<close>.\<close>

lemma mixed_decision:
  assumes "vad_active c" and "noise_floor c = - 6859 / 200"
  shows "vad_count exact_float typical_consts c (mixed_frame ts) = vad_frame_count c + 1"
proof -
  let ?E = "spec_energy_db exact_float typical_consts (mixed_frame ts)"
  have avg: "spec_avg_energy exact_float typical_consts (mixed_frame ts) = ?E 3 / 4"
    by (simp add: typical_avg mixed_energy_loud)
  have "- 20 < ?E 3 / 4"
    using low_energy_bound by (simp add: mixed_energy_low)
  then have e: "spec_avg_energy exact_float typical_consts (mixed_frame ts) > - 6859 / 200 + 10"
    unfolding avg by simp
  have "3 \<le> length (filter (\<lambda>ch. ?E ch > - 6859 / 200 + 6) [0, 1, 2, 3])"
    by (simp add: mixed_energy_loud)
  then have a: "2 \<le> spec_active_channels exact_float typical_consts (- 6859 / 200) (mixed_frame ts)"
    by (simp only: typical_active)
  show ?thesis
    using assms e a
    by (simp add: vad_count_def vad_floor_def typical_spec typical_fields exact_float_ops)
qed

lemma speech_recording_fields:
  "state speech_recording_ctx = VOICE_STATE_RECORDING"
  "recording_size speech_recording_ctx = 0"
  "recording_capacity speech_recording_ctx = 320000"
  "recording_buffer speech_recording_ctx = replicate 320000 0"
  "is_recording speech_recording_ctx"
  "vad_active speech_recording_ctx"
  "vad_frame_count speech_recording_ctx = 3"
  "noise_floor speech_recording_ctx = - 6859 / 200"
  "recording_start_time speech_recording_ctx = 0"
  "max_recording_duration speech_recording_ctx = 2000"
  "beamform_weights speech_recording_ctx = [1 / 4, 1 / 4, 1 / 4, 1 / 4]"
  "adaptive_mode (beamform (config speech_recording_ctx)) = False"
  "current_steering_angle speech_recording_ctx = 0"
  by (simp_all add: speech_recording_ctx_def voice_start_recording_def speech_ctx_def frame_eval
        fresh_eval upt4 Let_def)

lemma frame_timestamps:
  "timestamp_ms (loud_frame t) = t"
  "timestamp_ms (quiet_frame t) = t"
  "timestamp_ms (mixed_frame t) = t"
  by (simp_all add: loud_frame_def quiet_frame_def mixed_frame_def)

lemma second_frame_fields:
  "state (fst (voice_processing_step exact_float typical_consts speech_recording_ctx (loud_frame 90)))
     = VOICE_STATE_RECORDING"
  "recording_size (fst (voice_processing_step exact_float typical_consts speech_recording_ctx (loud_frame 90)))
     = 960"
  "recording_capacity (fst (voice_processing_step exact_float typical_consts speech_recording_ctx (loud_frame 90)))
     = 320000"
  "is_recording (fst (voice_processing_step exact_float typical_consts speech_recording_ctx (loud_frame 90)))"
  "vad_active (fst (voice_processing_step exact_float typical_consts speech_recording_ctx (loud_frame 90)))"
  "vad_frame_count (fst (voice_processing_step exact_float typical_consts speech_recording_ctx (loud_frame 90)))
     = 4"
  "noise_floor (fst (voice_processing_step exact_float typical_consts speech_recording_ctx (loud_frame 90)))
     = - 6859 / 200"
  "beamform_weights (fst (voice_processing_step exact_float typical_consts speech_recording_ctx (loud_frame 90)))
     = [1 / 4, 1 / 4, 1 / 4, 1 / 4]"
  "adaptive_mode (beamform (config
     (fst (voice_processing_step exact_float typical_consts speech_recording_ctx (loud_frame 90))))) = False"
  "current_steering_angle
     (fst (voice_processing_step exact_float typical_consts speech_recording_ctx (loud_frame 90))) = 0"
  by (simp_all add: frame_eval speech_recording_fields record_frame_def record_append_def
        frame_timestamps Let_def)

lemma witness_inputs:
  "session_inputs exact_float typical_consts speech_recording_ctx [loud_frame 90, mixed_frame 120] =
     [([1 / 4, 1 / 4, 1 / 4, 1 / 4], samples (loud_frame 90)),
      ([1 / 4, 1 / 4, 1 / 4, 1 / 4], samples (mixed_frame 120))]"
proof -
  let ?c1 = "fst (voice_processing_step exact_float typical_consts speech_recording_ctx (loud_frame 90))"
  have a: "appended_input exact_float typical_consts speech_recording_ctx (loud_frame 90)
             = Some ([1 / 4, 1 / 4, 1 / 4, 1 / 4], samples (loud_frame 90))"
    by (simp add: appended_input_eq Let_def task_analyse_frame_eq beamformed_def vad_decision_def
          vad_count_def vad_floor_def typical_spec loud_avg loud_active typical_fields exact_float_ops
          speech_recording_fields)
  have d: "vad_decision exact_float typical_consts ?c1 (mixed_frame 120)"
    by (simp add: vad_decision_def mixed_decision second_frame_fields typical_fields)
  have b: "appended_input exact_float typical_consts ?c1 (mixed_frame 120)
             = Some ([1 / 4, 1 / 4, 1 / 4, 1 / 4], samples (mixed_frame 120))"
    using d
    by (simp add: appended_input_eq Let_def task_analyse_frame_eq beamformed_def typical_fields
          second_frame_fields)
  show ?thesis
    by (simp add: a b)
qed

lemma loud_mixdown:
  "spec_mono_mixdown exact_float typical_consts ([1 / 4, 1 / 4, 1 / 4, 1 / 4], samples (loud_frame ts))
     = replicate 480 (- 32768)"
proof -
  have "spec_mono_sample exact_float typical_consts [1 / 4, 1 / 4, 1 / 4, 1 / 4] (samples (loud_frame ts)) i
          = - 32768" if "i < 480" for i
    using that
    by (simp add: spec_mono_sample_def typical_fields upt4 exact_float_ops loud_frame_def saturate_i16_def)
  then show ?thesis
    by (simp add: spec_mono_mixdown_def typical_fields list_eq_iff_nth_eq)
qed

lemma mixed_mixdown:
  "spec_mono_mixdown exact_float typical_consts ([1 / 4, 1 / 4, 1 / 4, 1 / 4], samples (mixed_frame ts))
     = replicate 480 (- 24574)"
proof -
  have "spec_mono_sample exact_float typical_consts [1 / 4, 1 / 4, 1 / 4, 1 / 4] (samples (mixed_frame ts)) i
          = - 24574" if "i < 480" for i
  proof -
    have s0: "samples (mixed_frame ts) ! (i * 4) = - 32768"
      using mixed_sample [OF that, of 0 ts] by simp
    have s1: "samples (mixed_frame ts) ! Suc (i * 4) = - 32768"
      using mixed_sample [OF that, of 1 ts] by simp
    have s2: "samples (mixed_frame ts) ! Suc (Suc (i * 4)) = - 32768"
      using mixed_sample [OF that, of 2 ts] by simp
    have s3: "samples (mixed_frame ts) ! (i * 4 + 3) = 5"
      using mixed_sample [OF that, of 3 ts] by simp
    have fl: "\<lfloor>98299 / 4 :: real\<rfloor> = 24574"
      by simp
    show ?thesis
      by (simp add: spec_mono_sample_def typical_fields upt4 exact_float_ops saturate_i16_def
            s0 s1 s2 s3 fl)
  qed
  then show ?thesis
    by (simp add: spec_mono_mixdown_def typical_fields list_eq_iff_nth_eq)
qed

lemma pcm_replicate: "spec_pcm_le (replicate n w) = concat (replicate n [word_of_nat (unat w mod 256), word_of_nat (unat w div 256)])"
  by (simp add: spec_pcm_le_def map_replicate)

lemma witness_bytes:
  "spec_pcm_le (replicate 480 (- 32768) @ replicate 480 (- 24574))
     = concat (replicate 480 [0, 128]) @ concat (replicate 480 [2, 160])"
proof -
  have "spec_pcm_le (xs @ ys) = spec_pcm_le xs @ spec_pcm_le ys" for xs ys
    by (simp add: spec_pcm_le_def)
  then show ?thesis
    by (simp add: pcm_replicate)
qed

text \<open>
  An instance with two appended frames: a recording started while the detector is
  active, then a loud frame and a frame with three channels at -32768 and one at 5.
  With the weights \<open>1/4\<close> the samples of the first mixdown are -32768 (bytes 0, 128);
  those of the second are \<open>-98299/4 = -24574.75\<close> cut to -24574 (bytes 2, 160).
\<close>

theorem recording_round_trip_witness:
  "(state speech_recording_ctx = VOICE_STATE_RECORDING \<or> state speech_recording_ctx = VOICE_STATE_WAKE_DETECTED)
   \<and> recording_size speech_recording_ctx = 0
   \<and> length (recording_buffer speech_recording_ctx) = recording_capacity speech_recording_ctx
   \<and> length (session_inputs exact_float typical_consts speech_recording_ctx [loud_frame 90, mixed_frame 120]) = 2
   \<and> (\<exists>ctx' buf'.
         voice_get_recording
           (Some (voice_processing_run exact_float typical_consts speech_recording_ctx
                    [loud_frame 90, mixed_frame 120]))
           (Some (replicate 4096 0)) 4096 (Some 0)
           = (VOICE_OK, Some ctx', Some buf', Some 1920)
         \<and> take 1920 buf' = concat (replicate 480 [0, 128]) @ concat (replicate 480 [2, 160]))"
proof -
  let ?fs = "[loud_frame 90, mixed_frame 120]"
  have st: "state speech_recording_ctx = VOICE_STATE_RECORDING \<or> state speech_recording_ctx = VOICE_STATE_WAKE_DETECTED"
    by (simp add: speech_recording_fields)
  have sz: "recording_size speech_recording_ctx = 0"
    by (simp add: speech_recording_fields)
  have al: "length (recording_buffer speech_recording_ctx) = recording_capacity speech_recording_ctx"
    by (simp add: speech_recording_fields)
  have n: "2 = length (session_inputs exact_float typical_consts speech_recording_ctx ?fs)"
    by (simp only: witness_inputs) simp
  have lg: "2 * VOICE_FRAME_SIZE typical_consts * 2 \<le> 4096"
    by (simp add: typical_fields)
  have bts: "spec_pcm_le (concat (map (spec_mono_mixdown exact_float typical_consts)
               (session_inputs exact_float typical_consts speech_recording_ctx ?fs)))
             = concat (replicate 480 [0, 128]) @ concat (replicate 480 [2, 160])"
    by (simp only: witness_inputs list.map concat.simps append_Nil2 loud_mixdown mixed_mixdown witness_bytes)
  have sz2: "2 * VOICE_FRAME_SIZE typical_consts * 2 = 1920"
    by (simp add: typical_fields)
  show ?thesis
    using st sz al n [symmetric]
      recording_round_trip [OF st sz al n lg, of "replicate 4096 0" 0]
    unfolding bts sz2
    by blast
qed

subsection \<open>Starting a recording\<close>
text \<open>
  C4, as stated, fails in the error code: called in a state other than IDLE and
  WAKE_DETECTED, here RECORDING, \<^verbatim>\<open>voice_start_recording\<close> does not fail with the
  invalid-state error.
\<close>

theorem start_recording_error_counterexample:
  "state recording_ctx = VOICE_STATE_RECORDING
   \<and> fst (voice_start_recording 0 (Some recording_ctx) 2000) \<noteq> VOICE_ERR_INVALID_STATE"
  by (simp add: recording_ctx_def voice_start_recording_def fresh_ctx_def voice_init_ok_def)

text \<open>
  C4, amended. On a context, \<^verbatim>\<open>voice_start_recording\<close> succeeds exactly when the state
  is IDLE or WAKE_DETECTED, and then leaves the state RECORDING with \<open>recording_size = 0\<close>,
  \<open>is_recording\<close> true and the given maximum duration; in any other state it fails with
  \<open>VOICE_ERR_INVALID_PARAM\<close> and leaves the context unchanged.
\<close>

theorem voice_start_recording_cases:
  "let r = voice_start_recording now (Some ctx) d
   in (fst r = VOICE_OK) = (state ctx = VOICE_STATE_IDLE \<or> state ctx = VOICE_STATE_WAKE_DETECTED)
      \<and> (if state ctx = VOICE_STATE_IDLE \<or> state ctx = VOICE_STATE_WAKE_DETECTED
          then map_option state (snd r) = Some VOICE_STATE_RECORDING
               \<and> map_option recording_size (snd r) = Some 0
               \<and> map_option is_recording (snd r) = Some True
               \<and> map_option max_recording_duration (snd r) = Some d
          else r = (VOICE_ERR_INVALID_PARAM, Some ctx))"
  by (auto simp add: voice_start_recording_def Let_def)

subsection \<open>Reset and state query\<close>
text \<open>
  C9. \<^verbatim>\<open>voice_reset\<close> on a context, in any state, succeeds and leaves the state IDLE,
  \<open>recording_size = 0\<close>, \<open>is_recording\<close> false, \<open>vad_frame_count = 0\<close>, \<open>vad_active\<close> false
  and all statistics zero except \<open>noise_floor_db\<close>, which holds the current noise floor;
  the noise floor itself is kept. A second reset in a row gives the same result as the
  first.
\<close>

theorem voice_reset_effect:
  "fst (voice_reset (Some ctx)) = VOICE_OK
   \<and> (\<exists>ctx'. snd (voice_reset (Some ctx)) = Some ctx'
        \<and> state ctx' = VOICE_STATE_IDLE
        \<and> recording_size ctx' = 0
        \<and> is_recording ctx' = False
        \<and> vad_frame_count ctx' = 0
        \<and> vad_active ctx' = False
        \<and> frames_processed (stats ctx') = 0
        \<and> buffer_overruns (stats ctx') = 0
        \<and> vad_activations (stats ctx') = 0
        \<and> wake_detections (stats ctx') = 0
        \<and> avg_energy_db (stats ctx') = 0
        \<and> cpu_usage_percent (stats ctx') = 0
        \<and> noise_floor_db (stats ctx') = noise_floor ctx
        \<and> noise_floor ctx' = noise_floor ctx)
   \<and> voice_reset (snd (voice_reset (Some ctx))) = voice_reset (Some ctx)"
  by (simp add: voice_reset_def zero_stats_def)

text \<open>
  C10. \<^verbatim>\<open>voice_get_state\<close> is total: on the NULL pointer it returns
  \<open>VOICE_STATE_ERROR\<close>, on a context its current state. It returns a state only: the
  context is read through a pointer to \<^verbatim>\<open>const\<close> and never written.
\<close>

theorem voice_get_state_total:
  "voice_get_state None = VOICE_STATE_ERROR \<and> voice_get_state (Some ctx) = state ctx"
  by (simp add: voice_get_state_def)

subsection \<open>Fetching the recording\<close>

text \<open>
  \<^verbatim>\<open>voice_get_recording\<close> in full: with a NULL argument it returns
  \<open>VOICE_ERR_INVALID_PARAM\<close> and changes nothing; on an empty recording it reports 0
  bytes and changes nothing else, the state included; otherwise it copies
  \<open>min recording_size buffer_size\<close> bytes, reports that count, resets the size and
  moves to IDLE.
\<close>

lemma voice_get_recording_cases:
  "voice_get_recording None buffer n bw = (VOICE_ERR_INVALID_PARAM, None, buffer, bw)"
  "voice_get_recording ctxp None n bw = (VOICE_ERR_INVALID_PARAM, ctxp, None, bw)"
  "voice_get_recording ctxp buffer n None = (VOICE_ERR_INVALID_PARAM, ctxp, buffer, None)"
  "voice_get_recording (Some ctx) (Some buf) n (Some w) =
     (if recording_size ctx = 0 then (VOICE_OK, Some ctx, Some buf, Some 0)
      else (VOICE_OK,
            Some (ctx\<lparr> recording_size := 0, state := VOICE_STATE_IDLE \<rparr>),
            Some (take (min (recording_size ctx) n) (recording_buffer ctx)
                    @ drop (min (recording_size ctx) n) buf),
            Some (min (recording_size ctx) n)))"
  by (simp_all add: voice_get_recording_def memcpy_def Let_def min_def split: option.split)

text \<open>
  C3. The claim that every call with non-NULL arguments leaves the state machine in IDLE
  is not met by the code when the recording is empty: the early return for
  \<open>recording_size = 0\<close> skips the transition. A session that is started and stopped
  before a VAD-active frame arrives is in PROCESSING with an empty recording;
  \<^verbatim>\<open>voice_get_recording\<close> then returns \<open>VOICE_OK\<close> with 0 bytes and the state stays
  PROCESSING.
\<close>

theorem get_recording_empty_keeps_processing:
  "state stopped_ctx = VOICE_STATE_PROCESSING
   \<and> recording_size stopped_ctx = 0
   \<and> voice_get_recording (Some stopped_ctx) (Some (replicate 16 0)) 16 (Some 7)
       = (VOICE_OK, Some stopped_ctx, Some (replicate 16 0), Some 0)"
  by (simp add: stopped_ctx_def recording_ctx_def voice_stop_recording_def voice_start_recording_def
        voice_get_recording_def fresh_eval)

subsection \<open>The error state\<close>

text \<open>
  No operation enters \<open>VOICE_STATE_ERROR\<close>: voice_core.c never assigns it, and a context
  starts in IDLE. So no run of the program that begins with \<^verbatim>\<open>voice_init\<close> reaches a
  context in ERROR, and what the operations do on such a context is observed on no
  execution.
\<close>

lemma record_frame_state:
  "state (record_frame F K c f) = state c \<or> state (record_frame F K c f) = VOICE_STATE_PROCESSING"
  by (simp add: record_frame_def record_append_def voice_stop_recording_def Let_def)

lemma error_state_never_entered:
  assumes "state ctx \<noteq> VOICE_STATE_ERROR"
  shows "state (fst (voice_processing_step F K ctx frame)) \<noteq> VOICE_STATE_ERROR"
    and "map_option state (snd (voice_start_recording now (Some ctx) d)) \<noteq> Some VOICE_STATE_ERROR"
    and "map_option state (snd (voice_stop_recording (Some ctx))) \<noteq> Some VOICE_STATE_ERROR"
    and "map_option state (fst (snd (voice_get_recording (Some ctx) buf n bw))) \<noteq> Some VOICE_STATE_ERROR"
    and "map_option state (snd (voice_reset (Some ctx))) \<noteq> Some VOICE_STATE_ERROR"
    and "map_option state (snd (voice_calibrate_noise K (Some ctx) ms)) \<noteq> Some VOICE_STATE_ERROR"
    and "map_option state (snd (voice_register_wake_word K (Some ctx) model)) \<noteq> Some VOICE_STATE_ERROR"
    and "state (voice_timeout_callback ctx) \<noteq> VOICE_STATE_ERROR"
proof -
  let ?c4 = "fst (task_analyse_frame F K ctx frame)"
  let ?f2 = "snd (task_analyse_frame F K ctx frame)"
  have s4: "state ?c4 = state ctx"
    by (simp add: task_analyse_frame_keeps)
  show "state (fst (voice_processing_step F K ctx frame)) \<noteq> VOICE_STATE_ERROR"
  proof (cases "state ctx")
    case VOICE_STATE_WAKE_DETECTED
    then show ?thesis
      using record_frame_state [of F K "?c4\<lparr> state := VOICE_STATE_RECORDING,
              recording_start_time := timestamp_ms ?f2, recording_size := 0, is_recording := True \<rparr>" ?f2]
      by (auto simp add: step_split task_state_machine_def s4)
  next
    case VOICE_STATE_RECORDING
    then show ?thesis
      using record_frame_state [of F K ?c4 ?f2]
      by (auto simp add: step_split task_state_machine_def s4)
  qed (use assms in \<open>simp_all add: step_split task_state_machine_def s4 process_wake_word_detection_def Let_def\<close>)
qed (use assms in \<open>simp_all add: voice_start_recording_def voice_stop_recording_def voice_get_recording_def
        voice_reset_def voice_calibrate_noise_def voice_register_wake_word_def voice_timeout_callback_def
        Let_def split: option.split\<close>)

lemma initial_state_not_error:
  "voice_init F K cfg now heap = Some ctx \<Longrightarrow> state ctx = VOICE_STATE_IDLE"
  by (auto simp add: voice_init_def voice_init_ok_def Let_def split: if_splits option.splits)

subsection \<open>Wake word detections and callbacks\<close>

lemma call_wake_callback_eq:
  "call_wake_callback ws idxs tr =
     tr @ (case filter (\<lambda>i. callback (ws ! i) \<noteq> None) idxs of
             [] \<Rightarrow> []
           | i # _ \<Rightarrow> (case callback (ws ! i) of Some cb \<Rightarrow> [cb] | None \<Rightarrow> []))"
  by (induction idxs) (auto split: option.split)

lemma call_wake_callback_first:
  "call_wake_callback (wake_words cfg) [0..<num_wake_words cfg] tr =
     tr @ (case first_wake_callback cfg of Some cb \<Rightarrow> [cb] | None \<Rightarrow> [])"
  by (simp add: call_wake_callback_eq first_wake_callback_def split: list.split option.split)

text \<open>
  C6, as stated, fails: a detection invokes no callback when no registered wake word
  has one, and the detection counter is incremented all the same. With no wake word
  registered, the frame on which the demo detector fires moves the state to
  WAKE_DETECTED and the counter to 1 while no callback is called.
\<close>

theorem wake_detection_without_callback_counterexample:
  "state wake_due_ctx = VOICE_STATE_IDLE
   \<and> state (fst (voice_processing_step exact_float typical_consts wake_due_ctx (loud_frame 90))) = VOICE_STATE_WAKE_DETECTED
   \<and> wake_detections (stats wake_due_ctx) = 0
   \<and> wake_detections (stats (fst (voice_processing_step exact_float typical_consts wake_due_ctx (loud_frame 90)))) = 1
   \<and> wake_callback_calls wake_due_ctx = []
   \<and> wake_callback_calls (fst (voice_processing_step exact_float typical_consts wake_due_ctx (loud_frame 90))) = []"
  by (simp add: wake_due_ctx_def speech_ctx_def frame_eval fresh_eval Let_def)

text \<open>
  C6, amended. A frame is a wake-word detection when it is processed in IDLE or
  LISTENING, its VAD decision is true and the simulation counter reaches a multiple of
  500. On every detection \<open>stats.wake_detections\<close> is incremented once and at most one
  wake-word callback is invoked: that of the first registered wake word, in registration
  order, whose callback is not NULL, and none when there is no such wake word. A frame
  that is no detection changes neither the counter nor the calls. So the counter equals
  the number of callback invocations as long as every detection finds a callback.
\<close>

theorem wake_detection_callbacks:
  "let ctx' = fst (voice_processing_step F K ctx frame);
       detection = ((state ctx = VOICE_STATE_IDLE \<or> state ctx = VOICE_STATE_LISTENING)
                    \<and> vad_active ctx' \<and> (simulation_counter ctx + 1) mod 500 = 0)
   in wake_detections (stats ctx') =
        (if detection then wake_detections (stats ctx) + 1 else wake_detections (stats ctx))
      \<and> wake_callback_calls ctx' =
          wake_callback_calls ctx
            @ (if detection
               then (case first_wake_callback (config ctx) of Some cb \<Rightarrow> [cb] | None \<Rightarrow> [])
               else [])"
  unfolding Let_def step_vad_fields
  unfolding step_split
  by (cases "state ctx")
     (simp_all add: task_state_machine_def task_analyse_frame_keeps process_wake_word_detection_def
        call_wake_callback_first record_frame_def record_append_def voice_stop_recording_def Let_def)

text \<open>
  An instance: with the callbacks NULL, 7 and 9 registered in this order, a detection
  calls 7 and nothing else.
\<close>

lemma upt3: "[0..<3] = [0, 1, 2]"
  by (simp add: upt_rec)

lemma replicate4: "replicate 4 x = [x, x, x, x]"
  by (simp add: numeral_eq_Suc)

lemma registered_config:
  "num_wake_words (config registered_ctx) = 3"
  "map callback (wake_words (config registered_ctx)) = [None, Some 7, Some 9, None]"
  by (simp_all add: registered_ctx_def voice_register_wake_word_def wake_due_ctx_def speech_ctx_def
        frame_eval fresh_eval Let_def replicate4)

lemma registered_first: "first_wake_callback (config registered_ctx) = Some 7"
proof -
  have "map (\<lambda>i. callback (wake_words (config registered_ctx) ! i)) [0, 1, 2, 3]
          = map callback (wake_words (config registered_ctx))"
    using registered_config(2) by (auto simp add: list_eq_iff_nth_eq nth_Cons' dest: map_eq_imp_length_eq)
  then show ?thesis
    using registered_config by (simp add: first_wake_callback_def upt3)
qed

lemma registered_fields:
  "state registered_ctx = VOICE_STATE_IDLE"
  "simulation_counter registered_ctx = 499"
  "wake_callback_calls registered_ctx = []"
  "wake_detections (stats registered_ctx) = 0"
  "vad_active (fst (voice_processing_step exact_float typical_consts registered_ctx (loud_frame 90)))"
  by (simp_all add: registered_ctx_def voice_register_wake_word_def wake_due_ctx_def speech_ctx_def
        frame_eval fresh_eval Let_def)

theorem wake_detection_callbacks_witness:
  "wake_detections (stats (fst (voice_processing_step exact_float typical_consts registered_ctx (loud_frame 90)))) = 1
   \<and> wake_callback_calls (fst (voice_processing_step exact_float typical_consts registered_ctx (loud_frame 90))) = [7]"
  using wake_detection_callbacks [of exact_float typical_consts registered_ctx "loud_frame 90"]
  by (simp add: Let_def registered_fields registered_first)

end
